theory Spec2Isabelle
  imports Complex_Main "HOL-Library.AList"
begin

section \<open>Shared data model\<close>

text \<open>
  A claim record reaches both engines as a Python dict from field name to string
  (\<^verbatim>\<open>ClaimData.dict()\<close> in \<^verbatim>\<open>main.py\<close>, a dict literal in \<^verbatim>\<open>models.py\<close>); a key may be
  absent. It is a partial map.
\<close>

type_synonym claim_data = "string \<rightharpoonup> string"

text \<open>
  The score result is the dict both engines return. \<^verbatim>\<open>processing_time_ms\<close> and
  \<^verbatim>\<open>timestamp\<close> are read from the clock and are left out. A breakdown is an
  insertion-ordered dict: an association list updated with \<^const>\<open>AList.update\<close>, which
  replaces the value of a key in place and appends a new key at the end, as a Python dict
  does. Python floats are modelled as exact reals; the emoji and accents of the Spanish
  risk-factor messages are dropped from the string literals.
\<close>

record score_result =
  fraud_probability :: real
  risk_score :: int
  risk_level :: string
  confidence :: string
  key_risk_factors :: "string list"
  scorecard_breakdown :: "(string \<times> int) list"
  business_recommendation :: string
  model_version :: string

text \<open>\<^verbatim>\<open>sub in s\<close> on Python strings: \<^verbatim>\<open>sub\<close> occurs in \<^verbatim>\<open>s\<close> as a contiguous run.\<close>

fun starts_with :: "string \<Rightarrow> string \<Rightarrow> bool" where
  "starts_with [] s = True"
| "starts_with (p # ps) [] = False"
| "starts_with (p # ps) (c # cs) = (p = c \<and> starts_with ps cs)"

fun str_contains :: "string \<Rightarrow> string \<Rightarrow> bool" where
  "str_contains sub [] = (sub = [])"
| "str_contains sub (c # cs) = (starts_with sub (c # cs) \<or> str_contains sub cs)"

text \<open>
  \<^verbatim>\<open>round(x, 3)\<close>: the nearest multiple of one thousandth, a tie going to the even
  neighbour.
\<close>

definition round_half_even :: "real \<Rightarrow> int" where
  "round_half_even x =
     (let f = \<lfloor>x\<rfloor>; d = x - of_int f
      in if d < 1 / 2 then f else if 1 / 2 < d then f + 1
         else if even f then f else f + 1)"

definition round3 :: "real \<Rightarrow> real" where
  "round3 x = of_int (round_half_even (x * 1000)) / 1000"

section \<open>The fallback engine (\<^verbatim>\<open>main.py\<close>, class \<^verbatim>\<open>FallbackFraudEngine\<close>)\<close>

definition base_score :: int where
  "base_score = 650"

definition base_fraud_rate :: real where
  "base_fraud_rate = 0.035"

definition risk_weights :: "(string \<times> real) list" where
  "risk_weights =
     [(''urgent_claim'', 0.18), (''complex_policy'', 0.09), (''premium_vehicle'', 0.12),
      (''young_driver'', 0.07), (''luxury_price'', 0.08), (''rural_area'', 0.05)]"

text \<open>The three locals that the six business rules update.\<close>

record rule_state =
  fraud_prob :: real
  risk_factors :: "string list"
  scorecard :: "(string \<times> int) list"

text \<open>
  Every rule of \<^verbatim>\<open>calculate_fraud_score\<close> is one \<^verbatim>\<open>if\<close>/\<^verbatim>\<open>else\<close> of the same shape:
  \<^verbatim>\<open>if cond: fraud_prob += risk_weights[w]; risk_factors.append(msg); scorecard[key] = hit\<close>
  \<^verbatim>\<open>else: scorecard[key] = miss\<close>.
\<close>

definition apply_rule ::
  "bool \<Rightarrow> string \<Rightarrow> string \<Rightarrow> string \<Rightarrow> int \<Rightarrow> int \<Rightarrow> rule_state \<Rightarrow> rule_state" where
  "apply_rule cond w msg key hit miss s =
     (if cond
      then s\<lparr>fraud_prob := fraud_prob s + the (map_of risk_weights w),
             risk_factors := risk_factors s @ [msg],
             scorecard := AList.update key hit (scorecard s)\<rparr>
      else s\<lparr>scorecard := AList.update key miss (scorecard s)\<rparr>)"

definition urgent_claim :: "claim_data \<Rightarrow> bool" where
  "urgent_claim c = (c ''Days_Policy_Claim'' = Some ''1 to 7'')"

definition complex_policy :: "claim_data \<Rightarrow> bool" where
  "complex_policy c =
     str_contains ''All Perils'' (case c ''PolicyType'' of None \<Rightarrow> '''' | Some s \<Rightarrow> s)"

definition premium_vehicle :: "claim_data \<Rightarrow> bool" where
  "premium_vehicle c = (c ''Make'' \<in> set [Some ''BMW'', Some ''Mercedes'', Some ''Audi''])"

definition young_driver :: "claim_data \<Rightarrow> bool" where
  "young_driver c = (c ''AgeOfPolicyHolder'' \<in> set [Some ''18 to 20'', Some ''21 to 25''])"

definition luxury_price :: "claim_data \<Rightarrow> bool" where
  "luxury_price c =
     (c ''VehiclePrice'' \<in> set [Some ''60000 to 69000'', Some ''more than 69000''])"

definition rural_area :: "claim_data \<Rightarrow> bool" where
  "rural_area c = (c ''AccidentArea'' = Some ''Rural'')"

definition initial_state :: rule_state where
  "initial_state =
     \<lparr>fraud_prob = base_fraud_rate, risk_factors = [],
      scorecard = [(''Base Score'', base_score)]\<rparr>"

definition apply_business_rules :: "claim_data \<Rightarrow> rule_state" where
  "apply_business_rules c =
     (let s1 = apply_rule (urgent_claim c) ''urgent_claim''
                 ''Claim reportado muy rapidamente (1-7 dias)'' ''Claim Timing'' (- 25) 10
                 initial_state;
          s2 = apply_rule (complex_policy c) ''complex_policy''
                 ''Poliza All Perils (mayor complejidad)'' ''Policy Type'' (- 15) 5 s1;
          s3 = apply_rule (premium_vehicle c) ''premium_vehicle''
                 ''Vehiculo de marca premium'' ''Vehicle Make'' (- 20) 5 s2;
          s4 = apply_rule (young_driver c) ''young_driver''
                 ''Conductor joven (alto riesgo)'' ''Driver Age'' (- 15) 5 s3;
          s5 = apply_rule (luxury_price c) ''luxury_price''
                 ''Vehiculo de alto valor'' ''Vehicle Value'' (- 10) 0 s4
      in apply_rule (rural_area c) ''rural_area''
           ''Accidente en area rural'' ''Accident Area'' (- 8) 2 s5)"

text \<open>\<^verbatim>\<open>min(0.95, max(0.005, fraud_prob))\<close>.\<close>

definition clamp_prob :: "real \<Rightarrow> real" where
  "clamp_prob p = min 0.95 (max 0.005 p)"

text \<open>\<^verbatim>\<open>sum([v for k, v in scorecard.items() if k != "Base Score"])\<close>.\<close>

definition points_adjustment :: "(string \<times> int) list \<Rightarrow> int" where
  "points_adjustment sc = sum_list (map snd (filter (\<lambda>kv. fst kv \<noteq> ''Base Score'') sc))"

definition fallback_calculate_fraud_score :: "claim_data \<Rightarrow> score_result" where
  "fallback_calculate_fraud_score c =
     (let s = apply_business_rules c;
          p = clamp_prob (fraud_prob s);
          final_score = base_score + points_adjustment (scorecard s);
          (level, conf, recommendation) =
            (if final_score \<le> 580
             then (''HIGH'', ''High'',
                   ''INVESTIGATE IMMEDIATELY - Multiple high-risk indicators'')
             else if final_score \<le> 620
             then (''MEDIUM'', ''Medium'',
                   ''DETAILED REVIEW REQUIRED - Some concerning factors'')
             else (''LOW'', ''High'', ''STANDARD PROCESSING - Normal risk profile''))
      in \<lparr>fraud_probability = round3 p,
          risk_score = final_score,
          risk_level = level,
          confidence = conf,
          key_risk_factors = take 4 (risk_factors s),
          scorecard_breakdown = scorecard s,
          business_recommendation = recommendation,
          model_version = ''1.0.0-fallback''\<rparr>)"

text \<open>The claim of scenario 1 of the specification.\<close>

definition scenario1 :: claim_data where
  "scenario1 =
     [''Days_Policy_Claim'' \<mapsto> ''1 to 7'', ''PolicyType'' \<mapsto> ''Sport - All Perils'',
      ''Make'' \<mapsto> ''BMW'', ''AgeOfPolicyHolder'' \<mapsto> ''21 to 25'',
      ''VehiclePrice'' \<mapsto> ''more than 69000'', ''AccidentArea'' \<mapsto> ''Urban'']"

section \<open>The trained engine (\<^verbatim>\<open>models.py\<close>, class \<^verbatim>\<open>FraudDetectionEngine\<close>)\<close>

subsection \<open>Values, exceptions and the one-row data frame\<close>

text \<open>
  The exceptions the scoring path can raise. \<^verbatim>\<open>calculate_fraud_score\<close> catches every
  \<^verbatim>\<open>Exception\<close>, so only the fact that one was raised is observable.
\<close>

datatype exn =
  AttributeError | IndexError | KeyError | TypeError | ValueError | PredictionError

definition bind_exn :: "exn + 'a \<Rightarrow> ('a \<Rightarrow> exn + 'b) \<Rightarrow> exn + 'b" where
  "bind_exn m f = (case m of Inl e \<Rightarrow> Inl e | Inr x \<Rightarrow> f x)"

text \<open>A value held by a data-frame cell: a missing value, a number or a string.\<close>

datatype cell = NaN | Num real | Str string

text \<open>
  \<^verbatim>\<open>df = pd.DataFrame([claim_data])\<close> has exactly one row (index 0) and one column per key
  of the claim: a map from column name to the value in that row. A \<^verbatim>\<open>Series\<close> taken
  from it has that one row; the default \<^verbatim>\<open>pd.Series()\<close> has none. A series of at most one
  row is a \<open>cell option\<close>, so \<open>df col\<close> is at once the column lookup and
  \<^verbatim>\<open>df.get(col, pd.Series())\<close>.
\<close>

type_synonym frame = "string \<rightharpoonup> cell"

type_synonym series = "cell option"

definition frame_of_claim :: "claim_data \<Rightarrow> frame" where
  "frame_of_claim c = (\<lambda>k. map_option Str (c k))"

text \<open>\<^verbatim>\<open>Series.map(dict)\<close>: a value that is not a key of the dict becomes NaN.\<close>

definition map_value :: "(string \<rightharpoonup> real) \<Rightarrow> cell \<Rightarrow> cell" where
  "map_value m v =
     (case v of Str s \<Rightarrow> (case m s of Some x \<Rightarrow> Num x | None \<Rightarrow> NaN) | _ \<Rightarrow> NaN)"

definition series_map :: "(string \<rightharpoonup> real) \<Rightarrow> series \<Rightarrow> series" where
  "series_map m s = map_option (map_value m) s"

text \<open>\<^verbatim>\<open>Series.fillna(d)\<close> replaces the NaN of the rows the series has.\<close>

definition fill_value :: "real \<Rightarrow> cell \<Rightarrow> cell" where
  "fill_value d v = (case v of NaN \<Rightarrow> Num d | _ \<Rightarrow> v)"

definition series_fillna :: "real \<Rightarrow> series \<Rightarrow> series" where
  "series_fillna d s = map_option (fill_value d) s"

text \<open>
  \<^verbatim>\<open>df[name] = series\<close> aligns the series on the index of \<^verbatim>\<open>df\<close>: row 0 takes the
  series' value at index 0, and NaN when the series has no such row.
\<close>

definition set_column :: "frame \<Rightarrow> string \<Rightarrow> series \<Rightarrow> frame" where
  "set_column df name s = df(name \<mapsto> (case s of None \<Rightarrow> NaN | Some v \<Rightarrow> v))"

subsection \<open>\<^verbatim>\<open>prepare_features\<close>, step 1: the category mapper\<close>

definition age_mapping :: "(string \<times> real) list" where
  "age_mapping =
     [(''below 18'', 17), (''16 to 17'', 17), (''18 to 20'', 19), (''21 to 25'', 23),
      (''26 to 30'', 28), (''31 to 35'', 33), (''36 to 40'', 38), (''41 to 50'', 45),
      (''51 to 65'', 58), (''over 65'', 70)]"

definition price_mapping :: "(string \<times> real) list" where
  "price_mapping =
     [(''less than 20000'', 15000), (''20000 to 29000'', 24500),
      (''30000 to 39000'', 34500), (''40000 to 59000'', 49500),
      (''60000 to 69000'', 64500), (''more than 69000'', 80000)]"

definition vehicle_age_mapping :: "(string \<times> real) list" where
  "vehicle_age_mapping =
     [(''new'', 0), (''2 years'', 2), (''3 years'', 3), (''4 years'', 4),
      (''5 years'', 5), (''6 years'', 6), (''7 years'', 7), (''more than 7'', 10)]"

definition days_mapping :: "(string \<times> real) list" where
  "days_mapping =
     [(''none'', 0), (''1 to 7'', 4), (''8 to 15'', 11),
      (''15 to 30'', 22), (''more than 30'', 45)]"

text \<open>
  One line of step 1:
  \<^verbatim>\<open>df[col + '_Numeric'] = df.get(col, pd.Series()).map(mapping).fillna(default)\<close>.
\<close>

definition numeric_series :: "(string \<times> real) list \<Rightarrow> real \<Rightarrow> frame \<Rightarrow> string \<Rightarrow> series" where
  "numeric_series mapping d df col = series_fillna d (series_map (map_of mapping) (df col))"

definition map_category :: "(string \<times> real) list \<Rightarrow> real \<Rightarrow> string \<Rightarrow> frame \<Rightarrow> frame" where
  "map_category mapping d col df =
     set_column df (col @ ''_Numeric'') (numeric_series mapping d df col)"

definition category_mapper :: "frame \<Rightarrow> frame" where
  "category_mapper df =
     (let df1 = map_category age_mapping 35 ''AgeOfPolicyHolder'' df;
          df2 = map_category price_mapping 35000 ''VehiclePrice'' df1;
          df3 = map_category vehicle_age_mapping 5 ''AgeOfVehicle'' df2
      in map_category days_mapping 30 ''Days_Policy_Claim'' df3)"

subsection \<open>Step 2: the business flags\<close>

text \<open>
  One line of step 2, for instance
  \<^verbatim>\<open>df['Premium_Make'] = df.get('Make', '').isin(['BMW', 'Mercedes', 'Audi']).astype(int)\<close>.
  When the column exists, the test is applied to its value and the outcome becomes 0 or 1.
  When it does not, \<^verbatim>\<open>df.get\<close> returns the default \<^verbatim>\<open>''\<close>, a Python \<^verbatim>\<open>str\<close>:
  \<^verbatim>\<open>('' == '1 to 7')\<close> is the \<^verbatim>\<open>bool\<close> False, which has no \<^verbatim>\<open>astype\<close>, and a
  \<^verbatim>\<open>str\<close> has neither \<^verbatim>\<open>isin\<close> nor \<^verbatim>\<open>str\<close>; each line raises AttributeError.
\<close>

definition flag_series :: "frame \<Rightarrow> string \<Rightarrow> (cell \<Rightarrow> bool) \<Rightarrow> exn + series" where
  "flag_series df col test =
     (case df col of
        None \<Rightarrow> Inl AttributeError
      | Some v \<Rightarrow> Inr (Some (Num (if test v then 1 else 0))))"

definition isin :: "string list \<Rightarrow> cell \<Rightarrow> bool" where
  "isin vals v = (v \<in> set (map Str vals))"

text \<open>\<^verbatim>\<open>.str.contains(pat, na=False)\<close>: a value that is not a string counts as no match.\<close>

definition contains_na_false :: "string \<Rightarrow> cell \<Rightarrow> bool" where
  "contains_na_false pat v = (case v of Str s \<Rightarrow> str_contains pat s | _ \<Rightarrow> False)"

definition business_flags :: "frame \<Rightarrow> exn + frame" where
  "business_flags df =
     bind_exn (flag_series df ''Days_Policy_Claim'' (\<lambda>v. v = Str ''1 to 7'')) (\<lambda>s1.
     let df1 = set_column df ''Claim_Urgency'' s1 in
     bind_exn (flag_series df1 ''VehiclePrice''
                 (isin [''60000 to 69000'', ''more than 69000''])) (\<lambda>s2.
     let df2 = set_column df1 ''Luxury_Vehicle'' s2 in
     bind_exn (flag_series df2 ''AgeOfPolicyHolder'' (isin [''18 to 20'', ''21 to 25''])) (\<lambda>s3.
     let df3 = set_column df2 ''Young_Driver'' s3 in
     bind_exn (flag_series df3 ''PolicyType'' (contains_na_false ''All Perils'')) (\<lambda>s4.
     let df4 = set_column df3 ''Complex_Policy'' s4 in
     bind_exn (flag_series df4 ''Make'' (isin [''BMW'', ''Mercedes'', ''Audi''])) (\<lambda>s5.
     Inr (set_column df4 ''Premium_Make'' s5))))))"

subsection \<open>Step 3: the WoE encoder\<close>

text \<open>
  \<^verbatim>\<open>woe_mappings\<close> is a dict from field name to a dict from category to weight; the
  loop visits its items in order. For a field that is a column of \<^verbatim>\<open>df\<close>:
  \<^verbatim>\<open>df[var + '_WoE'] = df[var].map(woe_dict).fillna(0)\<close>.
\<close>

definition woe_step :: "string \<times> (string \<rightharpoonup> real) \<Rightarrow> frame \<Rightarrow> frame" where
  "woe_step item df =
     (case df (fst item) of
        None \<Rightarrow> df
      | Some v \<Rightarrow>
          set_column df (fst item @ ''_WoE'')
            (series_fillna 0 (series_map (snd item) (Some v))))"

definition woe_encoder :: "(string \<times> (string \<rightharpoonup> real)) list \<Rightarrow> frame \<Rightarrow> frame" where
  "woe_encoder woe df = fold woe_step woe df"

subsection \<open>Step 4: the feature assembler\<close>

text \<open>
  \<^verbatim>\<open>X = pd.DataFrame()\<close> starts with no row and no column. While it has no row,
  \<^verbatim>\<open>X[feature] = 0\<close> adds a column of length zero, and the first
  \<^verbatim>\<open>X[feature] = df[feature]\<close> gives \<^verbatim>\<open>X\<close> the index of the series, filling the columns
  it already has with NaN. Once \<^verbatim>\<open>X\<close> has its row, both assignments set the value of
  the column in that row. \<open>NoRow\<close> lists the columns of a frame without rows; \<open>Row\<close>
  holds the columns of a frame with one row, in order, with their values.
\<close>

datatype xframe = NoRow "string list" | Row "(string \<times> cell) list"

definition x_columns :: "xframe \<Rightarrow> string list" where
  "x_columns X = (case X of NoRow names \<Rightarrow> names | Row cols \<Rightarrow> map fst cols)"

definition assign_series :: "string \<Rightarrow> cell \<Rightarrow> xframe \<Rightarrow> xframe" where
  "assign_series feature v X =
     (case X of
        NoRow names \<Rightarrow> Row (AList.update feature v (map (\<lambda>k. (k, NaN)) names))
      | Row cols \<Rightarrow> Row (AList.update feature v cols))"

definition assign_zero :: "string \<Rightarrow> xframe \<Rightarrow> xframe" where
  "assign_zero feature X =
     (case X of
        NoRow names \<Rightarrow> NoRow (if feature \<in> set names then names else names @ [feature])
      | Row cols \<Rightarrow> Row (AList.update feature (Num 0) cols))"

definition select_step :: "frame \<Rightarrow> string \<Rightarrow> xframe \<Rightarrow> xframe" where
  "select_step df feature X =
     (case df feature of Some v \<Rightarrow> assign_series feature v X | None \<Rightarrow> assign_zero feature X)"

definition select_features :: "string list \<Rightarrow> frame \<Rightarrow> xframe" where
  "select_features names df = fold (select_step df) names (NoRow [])"

subsection \<open>The artifacts and \<^verbatim>\<open>prepare_features\<close>\<close>

text \<open>
  The pickled artifacts are not part of the repository; they are parameters. A model
  stands for \<^verbatim>\<open>model.predict_proba(X)[:, 1][0]\<close>: it returns a probability or raises. The
  scorecard is the list of its rows (\<^verbatim>\<open>Variable\<close>, \<^verbatim>\<open>Points\<close>); \<^verbatim>\<open>train_model.py\<close>
  stores the points as integers and the base points as a float.
\<close>

record artifacts =
  logistic_model :: "xframe \<Rightarrow> exn + real"
  xgb_model :: "xframe \<Rightarrow> exn + real"
  woe_mappings :: "(string \<times> (string \<rightharpoonup> real)) list"
  scorecard_rows :: "(string \<times> int) list"
  base_points :: real
  feature_names :: "string list"

definition derive_columns :: "(string \<times> (string \<rightharpoonup> real)) list \<Rightarrow> claim_data \<Rightarrow> exn + frame" where
  "derive_columns woe c =
     bind_exn (business_flags (category_mapper (frame_of_claim c)))
       (\<lambda>df. Inr (woe_encoder woe df))"

definition prepare_features :: "artifacts \<Rightarrow> claim_data \<Rightarrow> exn + xframe" where
  "prepare_features art c =
     bind_exn (derive_columns (woe_mappings art) c)
       (\<lambda>df. Inr (select_features (feature_names art) df))"

subsection \<open>\<^verbatim>\<open>calculate_scorecard_points\<close>\<close>

text \<open>\<^verbatim>\<open>s.replace(pat, '')\<close>: every occurrence of \<^verbatim>\<open>pat\<close>, from the left, is removed.\<close>

function remove_all :: "string \<Rightarrow> string \<Rightarrow> string" where
  "remove_all pat [] = []"
| "remove_all pat (c # cs) =
     (if pat \<noteq> [] \<and> starts_with pat (c # cs)
      then remove_all pat (drop (length pat) (c # cs))
      else c # remove_all pat cs)"
  by pat_completeness auto
termination
  by (relation "measure (\<lambda>(pat, s). length s)") auto

definition display_name :: "string \<Rightarrow> string" where
  "display_name variable = remove_all ''_Numeric'' (remove_all ''_WoE'' variable)"

text \<open>\<^verbatim>\<open>int(x)\<close> on a finite float truncates towards zero.\<close>

definition py_int :: "real \<Rightarrow> int" where
  "py_int x = (if 0 \<le> x then \<lfloor>x\<rfloor> else \<lceil>x\<rceil>)"

text \<open>\<^verbatim>\<open>X[variable].iloc[0]\<close>: a frame without rows has no position 0.\<close>

definition x_value :: "xframe \<Rightarrow> string \<Rightarrow> exn + cell" where
  "x_value X variable =
     (case X of
        NoRow names \<Rightarrow> (if variable \<in> set names then Inl IndexError else Inl KeyError)
      | Row cols \<Rightarrow> (case map_of cols variable of Some v \<Rightarrow> Inr v | None \<Rightarrow> Inl KeyError))"

text \<open>
  One turn of the loop over the scorecard rows. The state is \<^verbatim>\<open>total_points\<close>, a float
  that is NaN when it is \<open>None\<close>, and \<^verbatim>\<open>points_breakdown\<close>. A NaN value makes the
  contribution and the total NaN and fails the test \<^verbatim>\<open>abs(contribution) > 0.5\<close>; a string
  value makes \<^verbatim>\<open>value * points\<close> a string, and adding it to the float total raises
  TypeError.
\<close>

definition scorecard_step ::
  "xframe \<Rightarrow> string \<times> int \<Rightarrow> real option \<times> (string \<times> int) list
     \<Rightarrow> exn + real option \<times> (string \<times> int) list" where
  "scorecard_step X row acc =
     (if fst row \<in> set (x_columns X)
      then bind_exn (x_value X (fst row)) (\<lambda>v.
        case v of
          Str s \<Rightarrow> Inl TypeError
        | NaN \<Rightarrow> Inr (None, snd acc)
        | Num x \<Rightarrow>
            (let contribution = x * of_int (snd row)
             in Inr (map_option (\<lambda>t. t + contribution) (fst acc),
                     if 0.5 < \<bar>contribution\<bar>
                     then AList.update (display_name (fst row)) (py_int contribution) (snd acc)
                     else snd acc)))
      else Inr acc)"

fun scorecard_loop ::
  "xframe \<Rightarrow> (string \<times> int) list \<Rightarrow> real option \<times> (string \<times> int) list
     \<Rightarrow> exn + real option \<times> (string \<times> int) list" where
  "scorecard_loop X [] acc = Inr acc"
| "scorecard_loop X (row # rows) acc =
     bind_exn (scorecard_step X row acc) (scorecard_loop X rows)"

text \<open>\<^verbatim>\<open>int(total_points)\<close> raises ValueError when the total is NaN.\<close>

definition calculate_scorecard_points :: "artifacts \<Rightarrow> xframe \<Rightarrow> exn + int \<times> (string \<times> int) list" where
  "calculate_scorecard_points art X =
     bind_exn
       (scorecard_loop X (scorecard_rows art)
          (Some (base_points art), [(''Base Score'', py_int (base_points art))]))
       (\<lambda>acc. case fst acc of
                 None \<Rightarrow> Inl ValueError
               | Some total_points \<Rightarrow> Inr (py_int total_points, snd acc))"

subsection \<open>\<^verbatim>\<open>identify_risk_factors\<close>\<close>

text \<open>
  The six tests are written as in the fallback engine (\<^verbatim>\<open>claim_data.get(...) == ...\<close>,
  \<^verbatim>\<open>... in [...]\<close>, \<^verbatim>\<open>'All Perils' in claim_data.get('PolicyType', '')\<close>), so the same
  predicates serve.
\<close>

definition identify_risk_factors :: "claim_data \<Rightarrow> real \<Rightarrow> string list" where
  "identify_risk_factors c p =
     (let found =
            (if urgent_claim c then [''Claim reportado muy rapidamente (1-7 dias)''] else [])
          @ (if complex_policy c then [''Poliza de cobertura completa (All Perils)''] else [])
          @ (if premium_vehicle c then [''Vehiculo de marca premium''] else [])
          @ (if young_driver c then [''Conductor joven (mayor riesgo estadistico)''] else [])
          @ (if luxury_price c then [''Vehiculo de alto valor''] else [])
          @ (if rural_area c then [''Accidente en area rural''] else []);
          factors =
            (if length found = 0 \<and> 0.3 < p
             then found @ [''Combinacion de factores genera riesgo elevado'']
             else found)
      in take 4 factors)"

subsection \<open>\<^verbatim>\<open>calculate_fraud_score\<close>\<close>

text \<open>The body of the \<^verbatim>\<open>try\<close> block: \<open>Inl\<close> is an exception raised somewhere inside it.\<close>

definition score_claim :: "artifacts \<Rightarrow> claim_data \<Rightarrow> exn + score_result" where
  "score_claim art c =
     bind_exn (prepare_features art c) (\<lambda>X.
     bind_exn (logistic_model art X) (\<lambda>p_logistic.
     bind_exn (xgb_model art X) (\<lambda>p_xgb.
     let p = 0.7 * p_logistic + 0.3 * p_xgb in
     bind_exn (calculate_scorecard_points art X) (\<lambda>points.
     let score = fst points;
         (level, conf, recommendation) =
           (if score \<le> 580
            then (''HIGH'', ''High'',
                  ''INVESTIGATE IMMEDIATELY - Multiple high-risk indicators detected'')
            else if score \<le> 620
            then (''MEDIUM'', ''Medium'',
                  ''DETAILED REVIEW REQUIRED - Some concerning factors present'')
            else (''LOW'', ''High'', ''STANDARD PROCESSING - Normal risk profile''))
     in Inr \<lparr>fraud_probability = round3 p,
             risk_score = score,
             risk_level = level,
             confidence = conf,
             key_risk_factors = identify_risk_factors c p,
             scorecard_breakdown = snd points,
             business_recommendation = recommendation,
             model_version = ''1.0.0-production''\<rparr>))))"

text \<open>The result of the \<^verbatim>\<open>except Exception\<close> branch.\<close>

definition error_result :: score_result where
  "error_result =
     \<lparr>fraud_probability = 0.05,
      risk_score = 650,
      risk_level = ''ERROR'',
      confidence = ''Low'',
      key_risk_factors = [''Error en procesamiento''],
      scorecard_breakdown = [(''Error'', 0)],
      business_recommendation = ''MANUAL REVIEW REQUIRED - System error'',
      model_version = ''1.0.0-error''\<rparr>"

definition calculate_fraud_score :: "artifacts \<Rightarrow> claim_data \<Rightarrow> score_result" where
  "calculate_fraud_score art c =
     (case score_claim art c of Inl e \<Rightarrow> error_result | Inr r \<Rightarrow> r)"

section \<open>Concrete inputs\<close>

text \<open>
  A small set of artifacts of the shape \<^verbatim>\<open>train_model.py\<close> writes: one WoE table, three
  features, a scorecard over them and two models that answer every frame.
\<close>

definition demo_artifacts :: artifacts where
  "demo_artifacts =
     \<lparr>logistic_model = (\<lambda>X. Inr 0.2),
      xgb_model = (\<lambda>X. Inr 0.4),
      woe_mappings = [(''Make'', [''BMW'' \<mapsto> 0.5, ''Honda'' \<mapsto> - 0.25])],
      scorecard_rows = [(''Make_WoE'', - 30), (''AgeOfVehicle_Numeric'', 1), (''Claim_Urgency'', - 40)],
      base_points = 612.5,
      feature_names = [''Make_WoE'', ''AgeOfVehicle_Numeric'', ''Claim_Urgency'']\<rparr>"

text \<open>The same artifacts with an ensemble model that raises during inference.\<close>

definition failing_artifacts :: artifacts where
  "failing_artifacts = demo_artifacts\<lparr>xgb_model := (\<lambda>X. Inl PredictionError)\<rparr>"

text \<open>The test claim of \<^verbatim>\<open>test_engine\<close> in \<^verbatim>\<open>models.py\<close>, with all eleven fields.\<close>

definition test_claim :: claim_data where
  "test_claim =
     [''Month'' \<mapsto> ''Jun'', ''DayOfWeek'' \<mapsto> ''Friday'', ''Make'' \<mapsto> ''BMW'',
      ''AccidentArea'' \<mapsto> ''Urban'', ''Sex'' \<mapsto> ''Male'', ''MaritalStatus'' \<mapsto> ''Single'',
      ''PolicyType'' \<mapsto> ''Sport - All Perils'', ''VehiclePrice'' \<mapsto> ''more than 69000'',
      ''AgeOfVehicle'' \<mapsto> ''2 years'', ''AgeOfPolicyHolder'' \<mapsto> ''21 to 25'',
      ''Days_Policy_Claim'' \<mapsto> ''1 to 7'']"

text \<open>The six fields the fallback engine reads.\<close>

definition rule_fields :: "string list" where
  "rule_fields =
     [''Days_Policy_Claim'', ''PolicyType'', ''Make'', ''AgeOfPolicyHolder'',
      ''VehiclePrice'', ''AccidentArea'']"

text \<open>The test claim with its five other fields changed.\<close>

definition other_claim :: claim_data where
  "other_claim =
     test_claim(''Month'' \<mapsto> ''Dec'', ''DayOfWeek'' \<mapsto> ''Monday'', ''Sex'' \<mapsto> ''Female'',
       ''MaritalStatus'' \<mapsto> ''Married'', ''AgeOfVehicle'' \<mapsto> ''more than 7'')"

text \<open>The test claim without its \<^verbatim>\<open>Days_Policy_Claim\<close> key, and without its \<^verbatim>\<open>AgeOfVehicle\<close> key.\<close>

definition claim_without_days :: claim_data where
  "claim_without_days =
     [''Month'' \<mapsto> ''Jun'', ''DayOfWeek'' \<mapsto> ''Friday'', ''Make'' \<mapsto> ''BMW'',
      ''AccidentArea'' \<mapsto> ''Urban'', ''Sex'' \<mapsto> ''Male'', ''MaritalStatus'' \<mapsto> ''Single'',
      ''PolicyType'' \<mapsto> ''Sport - All Perils'', ''VehiclePrice'' \<mapsto> ''more than 69000'',
      ''AgeOfVehicle'' \<mapsto> ''2 years'', ''AgeOfPolicyHolder'' \<mapsto> ''21 to 25'']"

definition claim_without_vehicle_age :: claim_data where
  "claim_without_vehicle_age =
     [''Month'' \<mapsto> ''Jun'', ''DayOfWeek'' \<mapsto> ''Friday'', ''Make'' \<mapsto> ''BMW'',
      ''AccidentArea'' \<mapsto> ''Urban'', ''Sex'' \<mapsto> ''Male'', ''MaritalStatus'' \<mapsto> ''Single'',
      ''PolicyType'' \<mapsto> ''Sport - All Perils'', ''VehiclePrice'' \<mapsto> ''more than 69000'',
      ''AgeOfPolicyHolder'' \<mapsto> ''21 to 25'', ''Days_Policy_Claim'' \<mapsto> ''1 to 7'']"

text \<open>The test claim with values outside the enumerations in three of its fields.\<close>

definition unknown_values_claim :: claim_data where
  "unknown_values_claim =
     [''Month'' \<mapsto> ''Jun'', ''DayOfWeek'' \<mapsto> ''Friday'', ''Make'' \<mapsto> ''Tesla'',
      ''AccidentArea'' \<mapsto> ''Urban'', ''Sex'' \<mapsto> ''Male'', ''MaritalStatus'' \<mapsto> ''Single'',
      ''PolicyType'' \<mapsto> ''Sport - All Perils'', ''VehiclePrice'' \<mapsto> ''more than 69000'',
      ''AgeOfVehicle'' \<mapsto> ''9 years'', ''AgeOfPolicyHolder'' \<mapsto> ''21 to 25'',
      ''Days_Policy_Claim'' \<mapsto> ''tomorrow'']"

section \<open>Well-formed inputs of the trained engine\<close>

text \<open>The eleven fields of \<^verbatim>\<open>ClaimData\<close>; \<^verbatim>\<open>train_model.py\<close> computes WoE tables for these.\<close>

definition claim_fields :: "string list" where
  "claim_fields =
     [''Month'', ''DayOfWeek'', ''Make'', ''AccidentArea'', ''Sex'', ''MaritalStatus'',
      ''PolicyType'', ''VehiclePrice'', ''AgeOfVehicle'', ''AgeOfPolicyHolder'',
      ''Days_Policy_Claim'']"

definition all_fields_present :: "claim_data \<Rightarrow> bool" where
  "all_fields_present c = list_all (\<lambda>k. c k \<noteq> None) claim_fields"

text \<open>
  The columns \<^verbatim>\<open>prepare_features\<close> derives: one \<^verbatim>\<open>_WoE\<close> column per WoE table, the four
  \<^verbatim>\<open>_Numeric\<close> columns and the five flags. \<^verbatim>\<open>train_model.py\<close> takes its feature list from
  these.
\<close>

definition derived_features :: "(string \<times> (string \<rightharpoonup> real)) list \<Rightarrow> string list" where
  "derived_features woe =
     map (\<lambda>item. fst item @ ''_WoE'') woe
     @ [''AgeOfPolicyHolder_Numeric'', ''VehiclePrice_Numeric'', ''AgeOfVehicle_Numeric'',
        ''Days_Policy_Claim_Numeric'']
     @ [''Claim_Urgency'', ''Luxury_Vehicle'', ''Young_Driver'', ''Complex_Policy'',
        ''Premium_Make'']"

definition is_num :: "cell \<Rightarrow> bool" where
  "is_num v = (case v of Num x \<Rightarrow> True | _ \<Rightarrow> False)"

text \<open>A frame of one row whose columns are the given names, in order, all holding numbers.\<close>

definition numeric_row :: "string list \<Rightarrow> xframe \<Rightarrow> bool" where
  "numeric_row names X =
     (case X of
        NoRow ns \<Rightarrow> False
      | Row cols \<Rightarrow> map fst cols = names \<and> list_all (\<lambda>kv. is_num (snd kv)) cols)"

text \<open>
  Artifacts as \<^verbatim>\<open>train_model.py\<close> writes them: WoE tables for claim fields only, a
  non-empty list of distinct features taken from the derived columns, and two models that
  return a probability for every numeric one-row frame with exactly these features.
\<close>

definition trained_artifacts :: "artifacts \<Rightarrow> bool" where
  "trained_artifacts art =
     (set (map fst (woe_mappings art)) \<subseteq> set claim_fields
      \<and> distinct (map fst (woe_mappings art))
      \<and> feature_names art \<noteq> []
      \<and> distinct (feature_names art)
      \<and> set (feature_names art) \<subseteq> set (derived_features (woe_mappings art))
      \<and> (\<forall>X. numeric_row (feature_names art) X
             \<longrightarrow> \<not> isl (logistic_model art X) \<and> \<not> isl (xgb_model art X)))"

section \<open>Properties of the fallback engine\<close>

lemma round3_thousandths: "round3 (of_int n / 1000) = of_int n / 1000"
  by (simp add: round3_def round_half_even_def)

lemma apply_rule_prob:
  "fraud_prob (apply_rule b w msg key hit miss s) =
     fraud_prob s + (if b then the (map_of risk_weights w) else 0)"
  by (simp add: apply_rule_def)

lemma apply_rule_scorecard:
  "scorecard (apply_rule b w msg key hit miss s) =
     AList.update key (if b then hit else miss) (scorecard s)"
  by (simp add: apply_rule_def)

lemma apply_rule_factors:
  "risk_factors (apply_rule b w msg key hit miss s) =
     risk_factors s @ (if b then [msg] else [])"
  by (simp add: apply_rule_def)

lemma fallback_prob_sum:
  "fraud_prob (apply_business_rules c) =
     0.035 + (if urgent_claim c then 0.18 else 0) + (if complex_policy c then 0.09 else 0)
       + (if premium_vehicle c then 0.12 else 0) + (if young_driver c then 0.07 else 0)
       + (if luxury_price c then 0.08 else 0) + (if rural_area c then 0.05 else 0)"
  by (simp add: apply_business_rules_def Let_def apply_rule_prob initial_state_def
      base_fraud_rate_def risk_weights_def)

lemma fallback_scorecard_entries:
  "scorecard (apply_business_rules c) =
     [(''Base Score'', 650),
      (''Claim Timing'', if urgent_claim c then - 25 else 10),
      (''Policy Type'', if complex_policy c then - 15 else 5),
      (''Vehicle Make'', if premium_vehicle c then - 20 else 5),
      (''Driver Age'', if young_driver c then - 15 else 5),
      (''Vehicle Value'', if luxury_price c then - 10 else 0),
      (''Accident Area'', if rural_area c then - 8 else 2)]"
  by (simp add: apply_business_rules_def Let_def apply_rule_scorecard initial_state_def
      base_score_def)

lemma fallback_prob_bounds:
  "0.035 \<le> fraud_prob (apply_business_rules c) \<and> fraud_prob (apply_business_rules c) \<le> 0.625"
  unfolding fallback_prob_sum by (simp add: add_increasing)

lemma fallback_prob_thousandths:
  "\<exists>n. fraud_prob (apply_business_rules c) = of_int n / 1000"
proof -
  have "fraud_prob (apply_business_rules c) =
     of_int (35 + (if urgent_claim c then 180 else 0) + (if complex_policy c then 90 else 0)
       + (if premium_vehicle c then 120 else 0) + (if young_driver c then 70 else 0)
       + (if luxury_price c then 80 else 0) + (if rural_area c then 50 else 0)) / 1000"
    unfolding fallback_prob_sum by simp
  then show ?thesis by blast
qed

lemma fallback_clamp_id:
  "clamp_prob (fraud_prob (apply_business_rules c)) = fraud_prob (apply_business_rules c)"
  using fallback_prob_bounds [of c] by (simp add: clamp_prob_def)

lemma fallback_result_fields:
  "fraud_probability (fallback_calculate_fraud_score c) =
     round3 (clamp_prob (fraud_prob (apply_business_rules c)))"
  "risk_score (fallback_calculate_fraud_score c) =
     base_score + points_adjustment (scorecard (apply_business_rules c))"
  "scorecard_breakdown (fallback_calculate_fraud_score c) = scorecard (apply_business_rules c)"
  "key_risk_factors (fallback_calculate_fraud_score c) =
     take 4 (risk_factors (apply_business_rules c))"
  by (simp_all add: fallback_calculate_fraud_score_def Let_def split: prod.split)

lemma fallback_risk_level:
  "risk_level (fallback_calculate_fraud_score c) =
     (if risk_score (fallback_calculate_fraud_score c) \<le> 580 then ''HIGH''
      else if risk_score (fallback_calculate_fraud_score c) \<le> 620 then ''MEDIUM''
      else ''LOW'')"
  by (simp add: fallback_calculate_fraud_score_def Let_def)

lemmas scenario_eval =
  fallback_calculate_fraud_score_def apply_business_rules_def apply_rule_def
  initial_state_def urgent_claim_def complex_policy_def premium_vehicle_def young_driver_def
  luxury_price_def rural_area_def clamp_prob_def points_adjustment_def base_score_def
  base_fraud_rate_def risk_weights_def round3_def round_half_even_def

text \<open>
  C2, as stated, fails: on the claim of scenario 1 the fallback engine does not return the
  probability 0.545 together with the score 567 and the level HIGH.
\<close>

theorem scenario1_probability_counterexample:
  "\<not> (fraud_probability (fallback_calculate_fraud_score scenario1) = 0.545
      \<and> risk_score (fallback_calculate_fraud_score scenario1) = 567
      \<and> risk_level (fallback_calculate_fraud_score scenario1) = ''HIGH'')"
  by (simp add: scenario_eval scenario1_def)

text \<open>
  C2, amended: on the claim of scenario 1 (urgent claim, All Perils policy, BMW, driver of
  21 to 25, vehicle above 69000, urban area) the fallback engine returns the probability
  0.035 + 0.18 + 0.09 + 0.12 + 0.07 + 0.08 = 0.575, the score 567 and the level HIGH.
\<close>

theorem scenario1_result:
  "fraud_probability (fallback_calculate_fraud_score scenario1) = 0.575
   \<and> risk_score (fallback_calculate_fraud_score scenario1) = 567
   \<and> risk_level (fallback_calculate_fraud_score scenario1) = ''HIGH''"
  by (simp add: scenario_eval scenario1_def)

text \<open>
  C6: for every claim record, the score returned by the fallback engine is the breakdown's
  "Base Score" entry plus the sum of all its other entries. The keys of the breakdown are
  distinct, so each component is counted once.
\<close>

theorem fallback_breakdown_total:
  "distinct (map fst (scorecard_breakdown (fallback_calculate_fraud_score c)))
   \<and> (\<exists>b. map_of (scorecard_breakdown (fallback_calculate_fraud_score c)) ''Base Score'' = Some b
        \<and> risk_score (fallback_calculate_fraud_score c) =
            b + sum_list (map snd (filter (\<lambda>kv. fst kv \<noteq> ''Base Score'')
                  (scorecard_breakdown (fallback_calculate_fraud_score c)))))"
  by (simp add: fallback_result_fields fallback_scorecard_entries points_adjustment_def
      base_score_def)

text \<open>
  C9: for every claim record, the probability the fallback engine accumulates lies between
  0.035 and 0.625, so clamping it to [0.005, 0.95] leaves it unchanged; it is a whole number
  of thousandths, so rounding leaves it unchanged too, and the returned probability lies
  in the same interval.
\<close>

theorem fallback_probability_range:
  "clamp_prob (fraud_prob (apply_business_rules c)) = fraud_prob (apply_business_rules c)
   \<and> fraud_probability (fallback_calculate_fraud_score c) = fraud_prob (apply_business_rules c)
   \<and> 0.035 \<le> fraud_probability (fallback_calculate_fraud_score c)
   \<and> fraud_probability (fallback_calculate_fraud_score c) \<le> 0.625"
proof -
  obtain n where n: "fraud_prob (apply_business_rules c) = of_int n / 1000"
    using fallback_prob_thousandths by blast
  have eq: "fraud_probability (fallback_calculate_fraud_score c) =
      fraud_prob (apply_business_rules c)"
    by (simp add: fallback_result_fields fallback_clamp_id) (simp add: n round3_thousandths)
  show ?thesis
    using fallback_prob_bounds [of c] by (simp add: eq fallback_clamp_id)
qed

text \<open>
  C10: two claim records that agree on the six fields the rules read (days to claim, policy
  type, make, age of policy holder, vehicle price, accident area) get the same result from
  the fallback engine, whatever their other fields hold.
\<close>

theorem fallback_ignores_other_fields:
  assumes "\<forall>k \<in> set rule_fields. c1 k = c2 k"
  shows "fallback_calculate_fraud_score c1 = fallback_calculate_fraud_score c2"
proof -
  have "urgent_claim c1 = urgent_claim c2" "complex_policy c1 = complex_policy c2"
    "premium_vehicle c1 = premium_vehicle c2" "young_driver c1 = young_driver c2"
    "luxury_price c1 = luxury_price c2" "rural_area c1 = rural_area c2"
    using assms
    by (simp_all add: rule_fields_def urgent_claim_def complex_policy_def premium_vehicle_def
        young_driver_def luxury_price_def rural_area_def)
  then have "apply_business_rules c1 = apply_business_rules c2"
    by (simp add: apply_business_rules_def)
  then show ?thesis
    by (simp add: fallback_calculate_fraud_score_def)
qed

theorem fallback_ignores_other_fields_witness:
  "test_claim ''Month'' \<noteq> other_claim ''Month''
   \<and> test_claim ''AgeOfVehicle'' \<noteq> other_claim ''AgeOfVehicle''
   \<and> fallback_calculate_fraud_score test_claim = fallback_calculate_fraud_score other_claim"
proof -
  have h: "\<forall>k \<in> set rule_fields. test_claim k = other_claim k"
    by (simp add: rule_fields_def test_claim_def other_claim_def)
  have m: "test_claim ''Month'' \<noteq> other_claim ''Month''"
    by (simp add: test_claim_def other_claim_def)
  have a: "test_claim ''AgeOfVehicle'' \<noteq> other_claim ''AgeOfVehicle''"
    by (simp add: test_claim_def other_claim_def)
  from m a fallback_ignores_other_fields [OF h] show ?thesis
    by blast
qed

section \<open>Properties of the trained engine\<close>

subsection \<open>Evaluation on the concrete inputs\<close>

lemmas prepare_eval =
  prepare_features_def derive_columns_def bind_exn_def category_mapper_def map_category_def
  numeric_series_def series_fillna_def series_map_def map_value_def fill_value_def
  set_column_def business_flags_def flag_series_def isin_def contains_na_false_def
  woe_encoder_def woe_step_def select_features_def select_step_def assign_series_def
  assign_zero_def frame_of_claim_def age_mapping_def price_mapping_def
  vehicle_age_mapping_def days_mapping_def

lemma demo_models:
  "logistic_model demo_artifacts = (\<lambda>X. Inr (1 / 5))"
  "xgb_model demo_artifacts = (\<lambda>X. Inr (2 / 5))"
  "logistic_model failing_artifacts = (\<lambda>X. Inr (1 / 5))"
  "xgb_model failing_artifacts = (\<lambda>X. Inl PredictionError)"
  by (simp_all add: demo_artifacts_def failing_artifacts_def)

lemma demo_prepare:
  "prepare_features demo_artifacts test_claim =
     Inr (Row [(''Make_WoE'', Num (1 / 2)), (''AgeOfVehicle_Numeric'', Num 2),
               (''Claim_Urgency'', Num 1)])"
  by (simp add: prepare_eval demo_artifacts_def test_claim_def)

lemma failing_prepare:
  "prepare_features failing_artifacts test_claim =
     Inr (Row [(''Make_WoE'', Num (1 / 2)), (''AgeOfVehicle_Numeric'', Num 2),
               (''Claim_Urgency'', Num 1)])"
  by (simp add: prepare_eval failing_artifacts_def demo_artifacts_def test_claim_def)

lemma demo_points:
  "calculate_scorecard_points demo_artifacts
     (Row [(''Make_WoE'', Num (1 / 2)), (''AgeOfVehicle_Numeric'', Num 2),
           (''Claim_Urgency'', Num 1)]) =
     Inr (559, [(''Base Score'', 612), (''Make'', - 15), (''AgeOfVehicle'', 2),
                (''Claim_Urgency'', - 40)])"
  by (simp add: calculate_scorecard_points_def scorecard_step_def bind_exn_def x_columns_def
      x_value_def display_name_def py_int_def demo_artifacts_def Let_def)

lemma demo_score:
  "score_claim demo_artifacts test_claim =
     Inr \<lparr>fraud_probability = 13 / 50, risk_score = 559, risk_level = ''HIGH'',
          confidence = ''High'',
          key_risk_factors =
            [''Claim reportado muy rapidamente (1-7 dias)'',
             ''Poliza de cobertura completa (All Perils)'',
             ''Vehiculo de marca premium'',
             ''Conductor joven (mayor riesgo estadistico)''],
          scorecard_breakdown =
            [(''Base Score'', 612), (''Make'', - 15), (''AgeOfVehicle'', 2),
             (''Claim_Urgency'', - 40)],
          business_recommendation =
            ''INVESTIGATE IMMEDIATELY - Multiple high-risk indicators detected'',
          model_version = ''1.0.0-production''\<rparr>"
proof -
  have f: "identify_risk_factors test_claim (13 / 50) =
      [''Claim reportado muy rapidamente (1-7 dias)'',
       ''Poliza de cobertura completa (All Perils)'',
       ''Vehiculo de marca premium'',
       ''Conductor joven (mayor riesgo estadistico)'']"
    by (simp add: identify_risk_factors_def urgent_claim_def complex_policy_def
        premium_vehicle_def young_driver_def luxury_price_def rural_area_def test_claim_def)
  have r: "round3 (13 / 50) = 13 / 50"
    by (simp add: round3_def round_half_even_def)
  show ?thesis
    by (simp add: score_claim_def demo_prepare demo_models demo_points bind_exn_def Let_def f r)
qed

lemma failing_score: "score_claim failing_artifacts test_claim = Inl PredictionError"
  by (simp add: score_claim_def failing_prepare demo_models bind_exn_def)

subsection \<open>The \<^verbatim>\<open>try\<close> block and its handler\<close>

lemma calc_inl: "score_claim art c = Inl e \<Longrightarrow> calculate_fraud_score art c = error_result"
  by (simp add: calculate_fraud_score_def)

lemma calc_inr: "score_claim art c = Inr r \<Longrightarrow> calculate_fraud_score art c = r"
  by (simp add: calculate_fraud_score_def)

lemma isl_error: "isl (score_claim art c) \<Longrightarrow> calculate_fraud_score art c = error_result"
  by (cases "score_claim art c") (simp_all add: calculate_fraud_score_def)

lemma score_claim_fails:
  assumes "prepare_features art c = Inl e
    \<or> (\<exists>X. prepare_features art c = Inr X
          \<and> (logistic_model art X = Inl e \<or> xgb_model art X = Inl e))"
  shows "isl (score_claim art c)"
  using assms
  by (auto simp: score_claim_def bind_exn_def split: sum.splits)

lemma score_claim_level:
  assumes "score_claim art c = Inr r"
  shows "risk_level r =
     (if risk_score r \<le> 580 then ''HIGH''
      else if risk_score r \<le> 620 then ''MEDIUM'' else ''LOW'')"
  using assms
  by (auto simp: score_claim_def bind_exn_def Let_def split: sum.splits if_splits)

lemma score_claim_breakdown:
  assumes "score_claim art c = Inr r"
  shows "\<exists>X points. calculate_scorecard_points art X = Inr points
           \<and> scorecard_breakdown r = snd points"
  using assms
  by (auto simp: score_claim_def bind_exn_def Let_def split: sum.splits if_splits) blast+

subsection \<open>A missing field in steps 1 and 2\<close>

lemma flags_missing_days:
  "df ''Days_Policy_Claim'' = None \<Longrightarrow> business_flags df = Inl AttributeError"
  by (simp add: business_flags_def flag_series_def bind_exn_def)

lemma mapper_other:
  "k \<notin> {''AgeOfPolicyHolder_Numeric'', ''VehiclePrice_Numeric'', ''AgeOfVehicle_Numeric'',
         ''Days_Policy_Claim_Numeric''} \<Longrightarrow> category_mapper df k = df k"
  by (simp add: category_mapper_def map_category_def set_column_def Let_def)

lemma without_days_column:
  "category_mapper (frame_of_claim claim_without_days) ''Days_Policy_Claim'' = None"
  by (simp add: mapper_other) (simp add: frame_of_claim_def claim_without_days_def)

lemma without_days_prepare:
  "prepare_features art claim_without_days = Inl AttributeError"
  by (simp add: prepare_features_def derive_columns_def flags_missing_days bind_exn_def
      without_days_column)

subsection \<open>The first entry of the breakdown\<close>

lemma update_hd:
  assumes "bd \<noteq> []" "fst (hd bd) = k0"
  shows "AList.update k x bd \<noteq> [] \<and> fst (hd (AList.update k x bd)) = k0
         \<and> (k \<noteq> k0 \<longrightarrow> snd (hd (AList.update k x bd)) = snd (hd bd))"
  using assms by (cases bd) auto

lemma scorecard_step_head:
  assumes "scorecard_step X row acc = Inr acc'"
    and "snd acc \<noteq> []" and "fst (hd (snd acc)) = ''Base Score''"
  shows "snd acc' \<noteq> [] \<and> fst (hd (snd acc')) = ''Base Score''
         \<and> (display_name (fst row) \<noteq> ''Base Score''
              \<longrightarrow> snd (hd (snd acc')) = snd (hd (snd acc)))"
  using assms update_hd [of "snd acc" "''Base Score''" "display_name (fst row)"]
  by (auto simp: scorecard_step_def bind_exn_def Let_def
      split: if_splits sum.splits cell.splits)

lemma scorecard_loop_head:
  assumes "scorecard_loop X rows acc = Inr acc'"
    and "snd acc \<noteq> []" and "fst (hd (snd acc)) = ''Base Score''"
  shows "snd acc' \<noteq> [] \<and> fst (hd (snd acc')) = ''Base Score''
         \<and> ((\<forall>row \<in> set rows. display_name (fst row) \<noteq> ''Base Score'')
              \<longrightarrow> snd (hd (snd acc')) = snd (hd (snd acc)))"
  using assms
proof (induction rows arbitrary: acc)
  case Nil
  then show ?case by simp
next
  case (Cons row rows)
  from Cons.prems(1) obtain acc1 where
    s: "scorecard_step X row acc = Inr acc1"
    and l: "scorecard_loop X rows acc1 = Inr acc'"
    by (auto simp: bind_exn_def split: sum.splits)
  note h = scorecard_step_head [OF s Cons.prems(2,3)]
  from Cons.IH [OF l] h show ?case by auto
qed

lemma points_head:
  assumes "calculate_scorecard_points art X = Inr points"
  shows "snd points \<noteq> [] \<and> fst (hd (snd points)) = ''Base Score''
         \<and> ((\<forall>row \<in> set (scorecard_rows art). display_name (fst row) \<noteq> ''Base Score'')
              \<longrightarrow> snd (hd (snd points)) = py_int (base_points art))"
proof -
  from assms obtain acc where
    l: "scorecard_loop X (scorecard_rows art)
          (Some (base_points art), [(''Base Score'', py_int (base_points art))]) = Inr acc"
    and p: "snd points = snd acc"
    by (auto simp: calculate_scorecard_points_def bind_exn_def split: sum.splits option.splits)
  from scorecard_loop_head [OF l] p show ?thesis by simp
qed

subsection \<open>Risk levels, the degraded result and the breakdown\<close>

text \<open>
  C1: the risk level returned by either engine is one of HIGH, MEDIUM, LOW and ERROR. The
  trained engine returns ERROR exactly when its \<^verbatim>\<open>try\<close> block raised (the degraded
  path); otherwise, and always for the fallback engine, the level is HIGH iff the score is
  at most 580, MEDIUM iff it is between 581 and 620, and LOW iff it is above 620.
\<close>

theorem risk_level_policy:
  "risk_level (calculate_fraud_score art c) \<in> {''HIGH'', ''MEDIUM'', ''LOW'', ''ERROR''}
   \<and> (risk_level (calculate_fraud_score art c) = ''ERROR'' \<longleftrightarrow> isl (score_claim art c))
   \<and> (\<not> isl (score_claim art c) \<longrightarrow>
        (risk_level (calculate_fraud_score art c) = ''HIGH''
           \<longleftrightarrow> risk_score (calculate_fraud_score art c) \<le> 580)
      \<and> (risk_level (calculate_fraud_score art c) = ''MEDIUM''
           \<longleftrightarrow> 581 \<le> risk_score (calculate_fraud_score art c)
               \<and> risk_score (calculate_fraud_score art c) \<le> 620)
      \<and> (risk_level (calculate_fraud_score art c) = ''LOW''
           \<longleftrightarrow> 620 < risk_score (calculate_fraud_score art c)))
   \<and> risk_level (fallback_calculate_fraud_score c) \<in> {''HIGH'', ''MEDIUM'', ''LOW''}
   \<and> (risk_level (fallback_calculate_fraud_score c) = ''HIGH''
         \<longleftrightarrow> risk_score (fallback_calculate_fraud_score c) \<le> 580)
   \<and> (risk_level (fallback_calculate_fraud_score c) = ''MEDIUM''
         \<longleftrightarrow> 581 \<le> risk_score (fallback_calculate_fraud_score c)
             \<and> risk_score (fallback_calculate_fraud_score c) \<le> 620)
   \<and> (risk_level (fallback_calculate_fraud_score c) = ''LOW''
         \<longleftrightarrow> 620 < risk_score (fallback_calculate_fraud_score c))"
proof (cases "score_claim art c")
  case (Inl e)
  then have "calculate_fraud_score art c = error_result" by (rule calc_inl)
  then have t: "risk_level (calculate_fraud_score art c) = ''ERROR''"
    by (simp add: error_result_def)
  show ?thesis
    unfolding fallback_risk_level [of c] using Inl t by simp
next
  case (Inr r)
  then have eq: "calculate_fraud_score art c = r" by (rule calc_inr)
  show ?thesis
    unfolding fallback_risk_level [of c] eq score_claim_level [OF Inr] using Inr by simp
qed

theorem risk_level_policy_witness:
  "\<not> isl (score_claim demo_artifacts test_claim)
   \<and> risk_score (calculate_fraud_score demo_artifacts test_claim) = 559
   \<and> risk_level (calculate_fraud_score demo_artifacts test_claim) = ''HIGH''
   \<and> isl (score_claim failing_artifacts test_claim)
   \<and> risk_level (calculate_fraud_score failing_artifacts test_claim) = ''ERROR''"
proof -
  have a: "\<not> isl (score_claim demo_artifacts test_claim)"
    by (simp add: demo_score)
  have b: "risk_score (calculate_fraud_score demo_artifacts test_claim) = 559"
    by (simp add: calc_inr [OF demo_score])
  have c: "isl (score_claim failing_artifacts test_claim)"
    by (simp add: failing_score)
  from risk_level_policy [of demo_artifacts test_claim] a b
  have d: "risk_level (calculate_fraud_score demo_artifacts test_claim) = ''HIGH''"
    by simp
  from risk_level_policy [of failing_artifacts test_claim] c
  have e: "risk_level (calculate_fraud_score failing_artifacts test_claim) = ''ERROR''"
    by blast
  from a b c d e show ?thesis by blast
qed

text \<open>
  C4: when feature derivation raises, or when either model raises on the derived features,
  \<^verbatim>\<open>calculate_fraud_score\<close> returns the degraded result: probability 0.05, score 650, level
  ERROR, confidence Low, exactly one risk factor and the model version "1.0.0-error".
\<close>

theorem degraded_result_on_failure:
  assumes "prepare_features art c = Inl e
    \<or> (\<exists>X. prepare_features art c = Inr X
          \<and> (logistic_model art X = Inl e \<or> xgb_model art X = Inl e))"
  shows "calculate_fraud_score art c = error_result
    \<and> fraud_probability (calculate_fraud_score art c) = 0.05
    \<and> risk_score (calculate_fraud_score art c) = 650
    \<and> risk_level (calculate_fraud_score art c) = ''ERROR''
    \<and> confidence (calculate_fraud_score art c) = ''Low''
    \<and> length (key_risk_factors (calculate_fraud_score art c)) = 1
    \<and> model_version (calculate_fraud_score art c) = ''1.0.0-error''"
proof -
  have "calculate_fraud_score art c = error_result"
    using assms by (intro isl_error score_claim_fails)
  then show ?thesis by (simp add: error_result_def)
qed

theorem degraded_result_on_failure_witness:
  "prepare_features demo_artifacts claim_without_days = Inl AttributeError
   \<and> risk_level (calculate_fraud_score demo_artifacts claim_without_days) = ''ERROR''
   \<and> xgb_model failing_artifacts
        (Row [(''Make_WoE'', Num (1 / 2)), (''AgeOfVehicle_Numeric'', Num 2),
              (''Claim_Urgency'', Num 1)]) = Inl PredictionError
   \<and> risk_level (calculate_fraud_score failing_artifacts test_claim) = ''ERROR''
   \<and> model_version (calculate_fraud_score failing_artifacts test_claim) = ''1.0.0-error''"
proof -
  have a: "prepare_features demo_artifacts claim_without_days = Inl AttributeError"
    by (rule without_days_prepare)
  have c: "xgb_model failing_artifacts
        (Row [(''Make_WoE'', Num (1 / 2)), (''AgeOfVehicle_Numeric'', Num 2),
              (''Claim_Urgency'', Num 1)]) = Inl PredictionError"
    by (simp add: demo_models)
  from degraded_result_on_failure [of demo_artifacts claim_without_days AttributeError] a
  have d: "risk_level (calculate_fraud_score demo_artifacts claim_without_days) = ''ERROR''"
    by blast
  from degraded_result_on_failure [of failing_artifacts test_claim PredictionError]
    failing_prepare c
  have e: "risk_level (calculate_fraud_score failing_artifacts test_claim) = ''ERROR''
    \<and> model_version (calculate_fraud_score failing_artifacts test_claim) = ''1.0.0-error''"
    by blast
  from a c d e show ?thesis by blast
qed

text \<open>
  C5, as stated, fails: when the ensemble model raises, the breakdown of the result of the
  trained engine has no "Base Score" key.
\<close>

theorem base_score_key_counterexample:
  "map_of (scorecard_breakdown (calculate_fraud_score failing_artifacts test_claim))
     ''Base Score'' = None"
  by (simp add: calc_inl [OF failing_score] error_result_def)

text \<open>
  C5, amended: for every claim record the breakdown of the fallback engine starts with the
  entry "Base Score", holding 650. The breakdown of the trained engine starts with the
  entry "Base Score" whenever the \<^verbatim>\<open>try\<close> block did not raise, and that entry holds
  \<^verbatim>\<open>int(base_points)\<close> provided no scorecard variable is displayed under the name
  "Base Score"; when the \<^verbatim>\<open>try\<close> block raised, the breakdown is the single entry
  "Error" with 0.
\<close>

theorem base_score_first_entry:
  "scorecard_breakdown (fallback_calculate_fraud_score c) \<noteq> []
   \<and> hd (scorecard_breakdown (fallback_calculate_fraud_score c)) = (''Base Score'', 650)
   \<and> (isl (score_claim art c) \<longrightarrow>
        scorecard_breakdown (calculate_fraud_score art c) = [(''Error'', 0)])
   \<and> (\<not> isl (score_claim art c) \<longrightarrow>
        scorecard_breakdown (calculate_fraud_score art c) \<noteq> []
        \<and> fst (hd (scorecard_breakdown (calculate_fraud_score art c))) = ''Base Score''
        \<and> ((\<forall>row \<in> set (scorecard_rows art). display_name (fst row) \<noteq> ''Base Score'')
             \<longrightarrow> snd (hd (scorecard_breakdown (calculate_fraud_score art c)))
                   = py_int (base_points art)))"
proof -
  have fb: "scorecard_breakdown (fallback_calculate_fraud_score c) \<noteq> []
      \<and> hd (scorecard_breakdown (fallback_calculate_fraud_score c)) = (''Base Score'', 650)"
    by (simp add: fallback_result_fields fallback_scorecard_entries)
  show ?thesis
  proof (cases "score_claim art c")
    case (Inl e)
    then show ?thesis
      using fb by (simp add: calc_inl [OF Inl] error_result_def)
  next
    case (Inr r)
    from score_claim_breakdown [OF Inr] obtain X points where
      p: "calculate_scorecard_points art X = Inr points"
      and b: "scorecard_breakdown r = snd points"
      by blast
    from points_head [OF p] b fb Inr show ?thesis
      by (simp add: calc_inr [OF Inr])
  qed
qed

theorem base_score_first_entry_witness:
  "\<not> isl (score_claim demo_artifacts test_claim)
   \<and> hd (scorecard_breakdown (calculate_fraud_score demo_artifacts test_claim))
       = (''Base Score'', 612)
   \<and> isl (score_claim failing_artifacts test_claim)
   \<and> scorecard_breakdown (calculate_fraud_score failing_artifacts test_claim)
       = [(''Error'', 0)]"
proof -
  have a: "\<not> isl (score_claim demo_artifacts test_claim)"
    by (simp add: demo_score)
  have n: "\<forall>row \<in> set (scorecard_rows demo_artifacts). display_name (fst row) \<noteq> ''Base Score''"
    by (simp add: demo_artifacts_def display_name_def)
  have v: "py_int (base_points demo_artifacts) = 612"
    by (simp add: demo_artifacts_def py_int_def)
  have c: "isl (score_claim failing_artifacts test_claim)"
    by (simp add: failing_score)
  from base_score_first_entry [of test_claim demo_artifacts] a n v
  have d: "hd (scorecard_breakdown (calculate_fraud_score demo_artifacts test_claim))
       = (''Base Score'', 612)"
    by (simp add: prod_eq_iff)
  from base_score_first_entry [of test_claim failing_artifacts] c
  have e: "scorecard_breakdown (calculate_fraud_score failing_artifacts test_claim)
       = [(''Error'', 0)]"
    by blast
  from a c d e show ?thesis by blast
qed

text \<open>
  C7, evaluated where it fails: on the test claim without its \<^verbatim>\<open>Days_Policy_Claim\<close> key,
  the line that derives \<^verbatim>\<open>Claim_Urgency\<close> raises AttributeError instead of setting the
  flag to 0, so \<^verbatim>\<open>prepare_features\<close> returns no features and the engine returns the
  degraded result.
\<close>

theorem missing_days_flag_raises:
  "claim_without_days ''Days_Policy_Claim'' = None
   \<and> flag_series (category_mapper (frame_of_claim claim_without_days))
        ''Days_Policy_Claim'' (\<lambda>v. v = Str ''1 to 7'') = Inl AttributeError
   \<and> prepare_features demo_artifacts claim_without_days = Inl AttributeError
   \<and> calculate_fraud_score demo_artifacts claim_without_days = error_result"
proof -
  have a: "claim_without_days ''Days_Policy_Claim'' = None"
    by (simp add: claim_without_days_def)
  have b: "flag_series (category_mapper (frame_of_claim claim_without_days))
        ''Days_Policy_Claim'' (\<lambda>v. v = Str ''1 to 7'') = Inl AttributeError"
    by (simp add: flag_series_def without_days_column)
  have "isl (score_claim demo_artifacts claim_without_days)"
    by (rule score_claim_fails) (simp add: without_days_prepare)
  then have c: "calculate_fraud_score demo_artifacts claim_without_days = error_result"
    by (rule isl_error)
  from a b c without_days_prepare [of demo_artifacts] show ?thesis
    by blast
qed

text \<open>
  C8, evaluated where it fails: on the test claim without its \<^verbatim>\<open>AgeOfVehicle\<close> key, the
  category mapper does not raise, but \<^verbatim>\<open>AgeOfVehicle_Numeric\<close> is NaN and not the default
  5, and the NaN reaches the feature vector.
\<close>

theorem missing_vehicle_age_is_nan:
  "claim_without_vehicle_age ''AgeOfVehicle'' = None
   \<and> category_mapper (frame_of_claim claim_without_vehicle_age) ''AgeOfVehicle_Numeric''
       = Some NaN
   \<and> prepare_features demo_artifacts claim_without_vehicle_age =
       Inr (Row [(''Make_WoE'', Num (1 / 2)), (''AgeOfVehicle_Numeric'', NaN),
                 (''Claim_Urgency'', Num 1)])"
  by (simp add: prepare_eval demo_artifacts_def claim_without_vehicle_age_def)

subsection \<open>Scoring a claim that has all its fields\<close>

subsubsection \<open>Steps 1 and 2\<close>

lemma numeric_series_str:
  "df col = Some (Str s) \<Longrightarrow>
     numeric_series m d df col = Some (Num (case map_of m s of Some x \<Rightarrow> x | None \<Rightarrow> d))"
  by (simp add: numeric_series_def series_fillna_def series_map_def map_value_def
      fill_value_def split: option.split)

lemma mapper_columns:
  assumes "df ''AgeOfPolicyHolder'' = Some (Str a)" "df ''VehiclePrice'' = Some (Str p)"
    "df ''AgeOfVehicle'' = Some (Str g)" "df ''Days_Policy_Claim'' = Some (Str t)"
  shows "category_mapper df =
     df(''AgeOfPolicyHolder_Numeric'' \<mapsto>
          Num (case map_of age_mapping a of Some x \<Rightarrow> x | None \<Rightarrow> 35),
        ''VehiclePrice_Numeric'' \<mapsto>
          Num (case map_of price_mapping p of Some x \<Rightarrow> x | None \<Rightarrow> 35000),
        ''AgeOfVehicle_Numeric'' \<mapsto>
          Num (case map_of vehicle_age_mapping g of Some x \<Rightarrow> x | None \<Rightarrow> 5),
        ''Days_Policy_Claim_Numeric'' \<mapsto>
          Num (case map_of days_mapping t of Some x \<Rightarrow> x | None \<Rightarrow> 30))"
  using assms
  by (simp add: category_mapper_def map_category_def set_column_def Let_def numeric_series_str)

lemma flags_columns:
  assumes "df ''Days_Policy_Claim'' = Some v1" "df ''VehiclePrice'' = Some v2"
    "df ''AgeOfPolicyHolder'' = Some v3" "df ''PolicyType'' = Some v4" "df ''Make'' = Some v5"
  shows "business_flags df =
     Inr (df(''Claim_Urgency'' \<mapsto> Num (if v1 = Str ''1 to 7'' then 1 else 0),
             ''Luxury_Vehicle'' \<mapsto>
               Num (if isin [''60000 to 69000'', ''more than 69000''] v2 then 1 else 0),
             ''Young_Driver'' \<mapsto> Num (if isin [''18 to 20'', ''21 to 25''] v3 then 1 else 0),
             ''Complex_Policy'' \<mapsto> Num (if contains_na_false ''All Perils'' v4 then 1 else 0),
             ''Premium_Make'' \<mapsto>
               Num (if isin [''BMW'', ''Mercedes'', ''Audi''] v5 then 1 else 0)))"
  using assms
  by (simp add: business_flags_def flag_series_def bind_exn_def set_column_def Let_def
      split del: if_split)

subsubsection \<open>Step 3\<close>

lemma woe_step_untouched:
  "n \<noteq> fst item @ ''_WoE'' \<Longrightarrow> woe_step item df n = df n"
  by (simp add: woe_step_def set_column_def split: option.split)

lemma woe_encoder_untouched:
  "n \<notin> (\<lambda>item. fst item @ ''_WoE'') ` set woe \<Longrightarrow> woe_encoder woe df n = df n"
  unfolding woe_encoder_def
  by (induction woe arbitrary: df) (simp_all add: woe_step_untouched)

lemma woe_encoder_other:
  assumes "last n \<noteq> CHR ''E''"
  shows "woe_encoder woe df n = df n"
proof (rule woe_encoder_untouched)
  show "n \<notin> (\<lambda>item. fst item @ ''_WoE'') ` set woe"
  proof
    assume "n \<in> (\<lambda>item. fst item @ ''_WoE'') ` set woe"
    then obtain item where "n = fst item @ ''_WoE''" by auto
    then have "last n = CHR ''E''" by simp
    with assms show False by simp
  qed
qed

lemma woe_step_value:
  "df (fst item) = Some (Str v) \<Longrightarrow>
     woe_step item df (fst item @ ''_WoE'') =
       Some (Num (case snd item v of Some x \<Rightarrow> x | None \<Rightarrow> 0))"
  by (simp add: woe_step_def set_column_def series_fillna_def series_map_def map_value_def
      fill_value_def split: option.split)

lemma woe_encoder_value:
  assumes "distinct (map fst woe)" "item \<in> set woe" "last (fst item) \<noteq> CHR ''E''"
    "df (fst item) = Some (Str v)"
  shows "woe_encoder woe df (fst item @ ''_WoE'') =
           Some (Num (case snd item v of Some x \<Rightarrow> x | None \<Rightarrow> 0))"
  using assms
proof (induction woe arbitrary: df)
  case Nil
  then show ?case by simp
next
  case (Cons it rest)
  have raw: "woe_step it df (fst item) = Some (Str v)"
  proof -
    have "fst item \<noteq> fst it @ ''_WoE''"
      using Cons.prems(3) by auto
    then show ?thesis
      by (simp add: woe_step_untouched Cons.prems(4))
  qed
  show ?case
  proof (cases "item = it")
    case True
    have "fst item @ ''_WoE'' \<notin> (\<lambda>i. fst i @ ''_WoE'') ` set rest"
      using Cons.prems(1) True by (auto simp: image_iff)
    then have "woe_encoder rest (woe_step it df) (fst item @ ''_WoE'') =
        woe_step it df (fst item @ ''_WoE'')"
      by (rule woe_encoder_untouched)
    with True Cons.prems(4) show ?thesis
      by (simp add: woe_encoder_def woe_step_value)
  next
    case False
    with Cons.prems have "item \<in> set rest" "distinct (map fst rest)" by auto
    from Cons.IH [of "woe_step it df", OF this(2) this(1) Cons.prems(3) raw] show ?thesis
      by (simp add: woe_encoder_def)
  qed
qed


subsubsection \<open>The derived frame\<close>

lemma derive_columns_explicit:
  assumes "c ''AgeOfPolicyHolder'' = Some a" "c ''VehiclePrice'' = Some p"
    "c ''AgeOfVehicle'' = Some g" "c ''Days_Policy_Claim'' = Some t"
    "c ''PolicyType'' = Some y" "c ''Make'' = Some m"
  shows "derive_columns woe c =
     Inr (woe_encoder woe
       ((frame_of_claim c)
          (''AgeOfPolicyHolder_Numeric'' \<mapsto>
             Num (case map_of age_mapping a of Some x \<Rightarrow> x | None \<Rightarrow> 35),
           ''VehiclePrice_Numeric'' \<mapsto>
             Num (case map_of price_mapping p of Some x \<Rightarrow> x | None \<Rightarrow> 35000),
           ''AgeOfVehicle_Numeric'' \<mapsto>
             Num (case map_of vehicle_age_mapping g of Some x \<Rightarrow> x | None \<Rightarrow> 5),
           ''Days_Policy_Claim_Numeric'' \<mapsto>
             Num (case map_of days_mapping t of Some x \<Rightarrow> x | None \<Rightarrow> 30),
           ''Claim_Urgency'' \<mapsto> Num (if Str t = Str ''1 to 7'' then 1 else 0),
           ''Luxury_Vehicle'' \<mapsto>
             Num (if isin [''60000 to 69000'', ''more than 69000''] (Str p) then 1 else 0),
           ''Young_Driver'' \<mapsto>
             Num (if isin [''18 to 20'', ''21 to 25''] (Str a) then 1 else 0),
           ''Complex_Policy'' \<mapsto>
             Num (if contains_na_false ''All Perils'' (Str y) then 1 else 0),
           ''Premium_Make'' \<mapsto>
             Num (if isin [''BMW'', ''Mercedes'', ''Audi''] (Str m) then 1 else 0))))"
proof -
  let ?F = "frame_of_claim c"
  have F: "?F ''AgeOfPolicyHolder'' = Some (Str a)" "?F ''VehiclePrice'' = Some (Str p)"
    "?F ''AgeOfVehicle'' = Some (Str g)" "?F ''Days_Policy_Claim'' = Some (Str t)"
    "?F ''PolicyType'' = Some (Str y)" "?F ''Make'' = Some (Str m)"
    using assms by (simp_all add: frame_of_claim_def)
  note M = mapper_columns [OF F(1-4)]
  have MF: "category_mapper ?F ''Days_Policy_Claim'' = Some (Str t)"
    "category_mapper ?F ''VehiclePrice'' = Some (Str p)"
    "category_mapper ?F ''AgeOfPolicyHolder'' = Some (Str a)"
    "category_mapper ?F ''PolicyType'' = Some (Str y)"
    "category_mapper ?F ''Make'' = Some (Str m)"
    by (simp_all add: mapper_other F)
  note fl = flags_columns [OF MF]
  have "derive_columns woe c =
      Inr (woe_encoder woe ((category_mapper ?F)
        (''Claim_Urgency'' \<mapsto> Num (if Str t = Str ''1 to 7'' then 1 else 0),
         ''Luxury_Vehicle'' \<mapsto>
           Num (if isin [''60000 to 69000'', ''more than 69000''] (Str p) then 1 else 0),
         ''Young_Driver'' \<mapsto>
           Num (if isin [''18 to 20'', ''21 to 25''] (Str a) then 1 else 0),
         ''Complex_Policy'' \<mapsto>
           Num (if contains_na_false ''All Perils'' (Str y) then 1 else 0),
         ''Premium_Make'' \<mapsto>
           Num (if isin [''BMW'', ''Mercedes'', ''Audi''] (Str m) then 1 else 0))))"
    unfolding derive_columns_def fl bind_exn_def by (simp split del: if_split)
  then show ?thesis
    unfolding M .
qed

lemma claim_field_last: "k \<in> set claim_fields \<Longrightarrow> last k \<noteq> CHR ''E''"
  by (auto simp: claim_fields_def)

lemma present_fields:
  assumes "all_fields_present c"
  shows "\<exists>a p g t y m. c ''AgeOfPolicyHolder'' = Some a \<and> c ''VehiclePrice'' = Some p
    \<and> c ''AgeOfVehicle'' = Some g \<and> c ''Days_Policy_Claim'' = Some t
    \<and> c ''PolicyType'' = Some y \<and> c ''Make'' = Some m"
  using assms by (simp add: all_fields_present_def claim_fields_def)


lemma raw_not_derived:
  "k \<in> set claim_fields \<Longrightarrow>
     k \<notin> {''AgeOfPolicyHolder_Numeric'', ''VehiclePrice_Numeric'', ''AgeOfVehicle_Numeric'',
           ''Days_Policy_Claim_Numeric'', ''Claim_Urgency'', ''Luxury_Vehicle'',
           ''Young_Driver'', ''Complex_Policy'', ''Premium_Make''}"
  by (auto simp: claim_fields_def)

lemma updates_other:
  "k \<notin> {''AgeOfPolicyHolder_Numeric'', ''VehiclePrice_Numeric'', ''AgeOfVehicle_Numeric'',
           ''Days_Policy_Claim_Numeric'', ''Claim_Urgency'', ''Luxury_Vehicle'',
           ''Young_Driver'', ''Complex_Policy'', ''Premium_Make''} \<Longrightarrow>
   (F(''AgeOfPolicyHolder_Numeric'' \<mapsto> x1, ''VehiclePrice_Numeric'' \<mapsto> x2,
      ''AgeOfVehicle_Numeric'' \<mapsto> x3, ''Days_Policy_Claim_Numeric'' \<mapsto> x4,
      ''Claim_Urgency'' \<mapsto> x5, ''Luxury_Vehicle'' \<mapsto> x6, ''Young_Driver'' \<mapsto> x7,
      ''Complex_Policy'' \<mapsto> x8, ''Premium_Make'' \<mapsto> x9)) k = F k"
  by simp

lemma updates_values:
  assumes "B = F(''AgeOfPolicyHolder_Numeric'' \<mapsto> x1, ''VehiclePrice_Numeric'' \<mapsto> x2,
      ''AgeOfVehicle_Numeric'' \<mapsto> x3, ''Days_Policy_Claim_Numeric'' \<mapsto> x4,
      ''Claim_Urgency'' \<mapsto> x5, ''Luxury_Vehicle'' \<mapsto> x6, ''Young_Driver'' \<mapsto> x7,
      ''Complex_Policy'' \<mapsto> x8, ''Premium_Make'' \<mapsto> x9)"
  shows "B ''AgeOfPolicyHolder_Numeric'' = Some x1" "B ''VehiclePrice_Numeric'' = Some x2"
    "B ''AgeOfVehicle_Numeric'' = Some x3" "B ''Days_Policy_Claim_Numeric'' = Some x4"
    "B ''Claim_Urgency'' = Some x5" "B ''Luxury_Vehicle'' = Some x6"
    "B ''Young_Driver'' = Some x7" "B ''Complex_Policy'' = Some x8"
    "B ''Premium_Make'' = Some x9"
  by (simp_all add: assms)

lemma derived_last:
  "last ''AgeOfPolicyHolder_Numeric'' \<noteq> CHR ''E''" "last ''VehiclePrice_Numeric'' \<noteq> CHR ''E''"
  "last ''AgeOfVehicle_Numeric'' \<noteq> CHR ''E''" "last ''Days_Policy_Claim_Numeric'' \<noteq> CHR ''E''"
  "last ''Claim_Urgency'' \<noteq> CHR ''E''" "last ''Luxury_Vehicle'' \<noteq> CHR ''E''"
  "last ''Young_Driver'' \<noteq> CHR ''E''" "last ''Complex_Policy'' \<noteq> CHR ''E''"
  "last ''Premium_Make'' \<noteq> CHR ''E''"
  by simp_all


lemma derived_frame:
  assumes "all_fields_present c" and "set (map fst woe) \<subseteq> set claim_fields"
    and "distinct (map fst woe)"
  shows "\<exists>D. derive_columns woe c = Inr D
    \<and> (\<forall>item \<in> set woe. \<forall>v. c (fst item) = Some v \<longrightarrow>
          D (fst item @ ''_WoE'') = Some (Num (case snd item v of Some x \<Rightarrow> x | None \<Rightarrow> 0)))
    \<and> (\<forall>v. c ''AgeOfPolicyHolder'' = Some v \<longrightarrow> D ''AgeOfPolicyHolder_Numeric'' =
          Some (Num (case map_of age_mapping v of Some x \<Rightarrow> x | None \<Rightarrow> 35)))
    \<and> (\<forall>v. c ''VehiclePrice'' = Some v \<longrightarrow> D ''VehiclePrice_Numeric'' =
          Some (Num (case map_of price_mapping v of Some x \<Rightarrow> x | None \<Rightarrow> 35000)))
    \<and> (\<forall>v. c ''AgeOfVehicle'' = Some v \<longrightarrow> D ''AgeOfVehicle_Numeric'' =
          Some (Num (case map_of vehicle_age_mapping v of Some x \<Rightarrow> x | None \<Rightarrow> 5)))
    \<and> (\<forall>v. c ''Days_Policy_Claim'' = Some v \<longrightarrow> D ''Days_Policy_Claim_Numeric'' =
          Some (Num (case map_of days_mapping v of Some x \<Rightarrow> x | None \<Rightarrow> 30)))
    \<and> (\<forall>f \<in> set [''Claim_Urgency'', ''Luxury_Vehicle'', ''Young_Driver'', ''Complex_Policy'',
          ''Premium_Make'']. \<exists>x. D f = Some (Num x))"
proof -
  from present_fields [OF assms(1)] obtain a p g t y m where
    f: "c ''AgeOfPolicyHolder'' = Some a" "c ''VehiclePrice'' = Some p"
    "c ''AgeOfVehicle'' = Some g" "c ''Days_Policy_Claim'' = Some t"
    "c ''PolicyType'' = Some y" "c ''Make'' = Some m"
    by blast
  define B where "B = (frame_of_claim c)
          (''AgeOfPolicyHolder_Numeric'' \<mapsto>
             Num (case map_of age_mapping a of Some x \<Rightarrow> x | None \<Rightarrow> 35),
           ''VehiclePrice_Numeric'' \<mapsto>
             Num (case map_of price_mapping p of Some x \<Rightarrow> x | None \<Rightarrow> 35000),
           ''AgeOfVehicle_Numeric'' \<mapsto>
             Num (case map_of vehicle_age_mapping g of Some x \<Rightarrow> x | None \<Rightarrow> 5),
           ''Days_Policy_Claim_Numeric'' \<mapsto>
             Num (case map_of days_mapping t of Some x \<Rightarrow> x | None \<Rightarrow> 30),
           ''Claim_Urgency'' \<mapsto> Num (if Str t = Str ''1 to 7'' then 1 else 0),
           ''Luxury_Vehicle'' \<mapsto>
             Num (if isin [''60000 to 69000'', ''more than 69000''] (Str p) then 1 else 0),
           ''Young_Driver'' \<mapsto>
             Num (if isin [''18 to 20'', ''21 to 25''] (Str a) then 1 else 0),
           ''Complex_Policy'' \<mapsto>
             Num (if contains_na_false ''All Perils'' (Str y) then 1 else 0),
           ''Premium_Make'' \<mapsto>
             Num (if isin [''BMW'', ''Mercedes'', ''Audi''] (Str m) then 1 else 0))"
  have D: "derive_columns woe c = Inr (woe_encoder woe B)"
    unfolding B_def by (rule derive_columns_explicit [OF f])
  note vals = updates_values [OF B_def]
  have raw: "B k = frame_of_claim c k" if "k \<in> set claim_fields" for k
    unfolding B_def by (rule updates_other [OF raw_not_derived [OF that]])
  have woe: "woe_encoder woe B (fst item @ ''_WoE'') =
      Some (Num (case snd item v of Some x \<Rightarrow> x | None \<Rightarrow> 0))"
    if "item \<in> set woe" "c (fst item) = Some v" for item v
  proof -
    from that(1) assms(2) have k: "fst item \<in> set claim_fields" by auto
    from raw [OF k] that(2) have "B (fst item) = Some (Str v)"
      by (simp add: frame_of_claim_def)
    from woe_encoder_value [where df = B, OF assms(3) that(1) claim_field_last [OF k] this]
    show ?thesis .
  qed
  note same = woe_encoder_other [OF derived_last(1)] woe_encoder_other [OF derived_last(2)]
    woe_encoder_other [OF derived_last(3)] woe_encoder_other [OF derived_last(4)]
    woe_encoder_other [OF derived_last(5)] woe_encoder_other [OF derived_last(6)]
    woe_encoder_other [OF derived_last(7)] woe_encoder_other [OF derived_last(8)]
    woe_encoder_other [OF derived_last(9)]
  show ?thesis
  proof (intro exI [of _ "woe_encoder woe B"] conjI)
    show "derive_columns woe c = Inr (woe_encoder woe B)" by (rule D)
    show "\<forall>item \<in> set woe. \<forall>v. c (fst item) = Some v \<longrightarrow>
          woe_encoder woe B (fst item @ ''_WoE'') =
            Some (Num (case snd item v of Some x \<Rightarrow> x | None \<Rightarrow> 0))"
      using woe by blast
    show "\<forall>v. c ''AgeOfPolicyHolder'' = Some v \<longrightarrow>
        woe_encoder woe B ''AgeOfPolicyHolder_Numeric'' =
          Some (Num (case map_of age_mapping v of Some x \<Rightarrow> x | None \<Rightarrow> 35))"
      unfolding same vals using f(1) by simp
    show "\<forall>v. c ''VehiclePrice'' = Some v \<longrightarrow>
        woe_encoder woe B ''VehiclePrice_Numeric'' =
          Some (Num (case map_of price_mapping v of Some x \<Rightarrow> x | None \<Rightarrow> 35000))"
      unfolding same vals using f(2) by simp
    show "\<forall>v. c ''AgeOfVehicle'' = Some v \<longrightarrow>
        woe_encoder woe B ''AgeOfVehicle_Numeric'' =
          Some (Num (case map_of vehicle_age_mapping v of Some x \<Rightarrow> x | None \<Rightarrow> 5))"
      unfolding same vals using f(3) by simp
    show "\<forall>v. c ''Days_Policy_Claim'' = Some v \<longrightarrow>
        woe_encoder woe B ''Days_Policy_Claim_Numeric'' =
          Some (Num (case map_of days_mapping v of Some x \<Rightarrow> x | None \<Rightarrow> 30))"
      unfolding same vals using f(4) by simp
    show "\<forall>f \<in> set [''Claim_Urgency'', ''Luxury_Vehicle'', ''Young_Driver'',
          ''Complex_Policy'', ''Premium_Make'']. \<exists>x. woe_encoder woe B f = Some (Num x)"
      by (simp add: same vals)
  qed
qed

subsubsection \<open>Step 4 when every feature is a column\<close>

lemma select_row:
  assumes "\<forall>n \<in> set names. df n \<noteq> None"
  shows "\<exists>cols'. fold (select_step df) names (Row cols) = Row cols'
     \<and> (\<forall>k. map_of cols' k = (if k \<in> set names then df k else map_of cols k))
     \<and> (distinct (map fst cols @ names) \<longrightarrow> map fst cols' = map fst cols @ names)"
  using assms
proof (induction names arbitrary: cols)
  case Nil
  then show ?case by simp
next
  case (Cons n ns)
  from Cons.prems obtain v where v: "df n = Some v" by auto
  let ?cols1 = "AList.update n v cols"
  have step: "select_step df n (Row cols) = Row ?cols1"
    by (simp add: select_step_def assign_series_def v)
  from Cons.prems have "\<forall>n \<in> set ns. df n \<noteq> None" by simp
  from Cons.IH [OF this, of ?cols1] obtain cols' where
    a: "fold (select_step df) ns (Row ?cols1) = Row cols'"
    and b: "\<forall>k. map_of cols' k = (if k \<in> set ns then df k else map_of ?cols1 k)"
    and c: "distinct (map fst ?cols1 @ ns) \<longrightarrow> map fst cols' = map fst ?cols1 @ ns"
    by blast
  have "\<forall>k. map_of cols' k = (if k \<in> set (n # ns) then df k else map_of cols k)"
    using b v by (simp add: update_conv')
  moreover have "distinct (map fst cols @ n # ns) \<longrightarrow> map fst cols' = map fst cols @ n # ns"
    using c by (auto simp: update_keys)
  ultimately show ?case
    using a step by simp
qed

lemma select_features_present:
  assumes "names \<noteq> []" "distinct names" "\<forall>n \<in> set names. df n \<noteq> None"
  shows "\<exists>cols. select_features names df = Row cols \<and> map fst cols = names
     \<and> (\<forall>k \<in> set names. map_of cols k = df k)"
proof -
  from assms(1) obtain n ns where ns: "names = n # ns" by (cases names) auto
  with assms(3) obtain v where v: "df n = Some v" by auto
  have first: "select_step df n (NoRow []) = Row [(n, v)]"
    by (simp add: select_step_def assign_series_def v)
  from assms(3) ns have "\<forall>n \<in> set ns. df n \<noteq> None" by simp
  from select_row [OF this, of "[(n, v)]"] obtain cols' where
    a: "fold (select_step df) ns (Row [(n, v)]) = Row cols'"
    and b: "\<forall>k. map_of cols' k = (if k \<in> set ns then df k else map_of [(n, v)] k)"
    and c: "distinct (map fst [(n, v)] @ ns) \<longrightarrow> map fst cols' = map fst [(n, v)] @ ns"
    by blast
  have "select_features names df = Row cols'"
    by (simp add: select_features_def ns first a)
  moreover have "map fst cols' = names"
    using c assms(2) ns by simp
  moreover have "\<forall>k \<in> set names. map_of cols' k = df k"
    using b v ns by simp
  ultimately show ?thesis by blast
qed

subsubsection \<open>The scorecard on a numeric row\<close>

lemma scorecard_step_numeric:
  assumes "list_all (\<lambda>kv. is_num (snd kv)) cols"
  shows "\<exists>t' bd'. scorecard_step (Row cols) row (Some t, bd) = Inr (Some t', bd')"
proof (cases "fst row \<in> set (map fst cols)")
  case False
  then show ?thesis by (simp add: scorecard_step_def x_columns_def)
next
  case True
  then obtain v where m: "map_of cols (fst row) = Some v"
    by (cases "map_of cols (fst row)") (auto simp: map_of_eq_None_iff)
  then have "(fst row, v) \<in> set cols" by (rule map_of_SomeD)
  with assms have "is_num v" by (auto simp: list_all_iff)
  then obtain x where "v = Num x" by (cases v) (simp_all add: is_num_def)
  with True m show ?thesis
    by (simp add: scorecard_step_def x_columns_def x_value_def bind_exn_def Let_def)
qed

lemma scorecard_loop_numeric:
  assumes "list_all (\<lambda>kv. is_num (snd kv)) cols"
  shows "\<exists>t' bd'. scorecard_loop (Row cols) rows (Some t, bd) = Inr (Some t', bd')"
proof (induction rows arbitrary: t bd)
  case Nil
  then show ?case by simp
next
  case (Cons row rows)
  from scorecard_step_numeric [OF assms, of row t bd] obtain t1 bd1 where
    "scorecard_step (Row cols) row (Some t, bd) = Inr (Some t1, bd1)" by blast
  with Cons.IH [of t1 bd1] show ?case by (simp add: bind_exn_def)
qed

lemma points_numeric:
  assumes "numeric_row names X"
  shows "\<exists>points. calculate_scorecard_points art X = Inr points"
proof -
  from assms obtain cols where X: "X = Row cols" and n: "list_all (\<lambda>kv. is_num (snd kv)) cols"
    by (cases X) (simp_all add: numeric_row_def)
  from scorecard_loop_numeric [OF n, of "scorecard_rows art" "base_points art"
      "[(''Base Score'', py_int (base_points art))]"]
  show ?thesis
    by (auto simp: calculate_scorecard_points_def bind_exn_def X)
qed

lemma fields_present: "all_fields_present c \<Longrightarrow> k \<in> set claim_fields \<Longrightarrow> \<exists>v. c k = Some v"
  by (auto simp: all_fields_present_def list_all_iff)

lemma score_claim_succeeds:
  assumes "prepare_features art c = Inr X" "logistic_model art X = Inr p1"
    "xgb_model art X = Inr p2" "calculate_scorecard_points art X = Inr points"
  shows "\<exists>r. score_claim art c = Inr r"
  using assms by (simp add: score_claim_def bind_exn_def Let_def split: prod.split)

text \<open>
  C3: with artifacts as \<^verbatim>\<open>train_model.py\<close> writes them, every claim record that has all
  eleven fields, whatever strings they hold, is scored without an exception: feature
  derivation returns a numeric one-row frame over the feature list, a value that is not
  in a field's WoE table gives the WoE column 0, a value that is not in a category-mapper
  table gives the numeric column the default of the table (35, 35000, 5, 30), every
  feature takes its value from the derived column, and the result is not the degraded
  one: its level is HIGH, MEDIUM or LOW.
\<close>

theorem unknown_values_scored:
  assumes "trained_artifacts art" and "all_fields_present c"
  shows "\<exists>D X r. derive_columns (woe_mappings art) c = Inr D
     \<and> prepare_features art c = Inr X
     \<and> numeric_row (feature_names art) X
     \<and> (\<forall>f \<in> set (feature_names art). \<exists>v. D f = Some v \<and> x_value X f = Inr v)
     \<and> (\<forall>item \<in> set (woe_mappings art). \<forall>v.
           c (fst item) = Some v \<and> snd item v = None \<longrightarrow>
             D (fst item @ ''_WoE'') = Some (Num 0))
     \<and> (\<forall>v. c ''AgeOfPolicyHolder'' = Some v \<and> map_of age_mapping v = None \<longrightarrow>
           D ''AgeOfPolicyHolder_Numeric'' = Some (Num 35))
     \<and> (\<forall>v. c ''VehiclePrice'' = Some v \<and> map_of price_mapping v = None \<longrightarrow>
           D ''VehiclePrice_Numeric'' = Some (Num 35000))
     \<and> (\<forall>v. c ''AgeOfVehicle'' = Some v \<and> map_of vehicle_age_mapping v = None \<longrightarrow>
           D ''AgeOfVehicle_Numeric'' = Some (Num 5))
     \<and> (\<forall>v. c ''Days_Policy_Claim'' = Some v \<and> map_of days_mapping v = None \<longrightarrow>
           D ''Days_Policy_Claim_Numeric'' = Some (Num 30))
     \<and> score_claim art c = Inr r
     \<and> calculate_fraud_score art c = r
     \<and> risk_level r \<in> {''HIGH'', ''MEDIUM'', ''LOW''}"
proof -
  let ?woe = "woe_mappings art" and ?fn = "feature_names art"
  from assms(1) have
    keys: "set (map fst ?woe) \<subseteq> set claim_fields" and
    dk: "distinct (map fst ?woe)" and
    ne: "?fn \<noteq> []" and
    df: "distinct ?fn" and
    sub: "set ?fn \<subseteq> set (derived_features ?woe)" and
    models: "\<And>X. numeric_row ?fn X \<Longrightarrow>
       \<not> isl (logistic_model art X) \<and> \<not> isl (xgb_model art X)"
    by (simp_all add: trained_artifacts_def)
  from derived_frame [OF assms(2) keys dk] obtain D where
    D: "derive_columns ?woe c = Inr D"
    and w: "\<forall>item \<in> set ?woe. \<forall>v. c (fst item) = Some v \<longrightarrow>
          D (fst item @ ''_WoE'') = Some (Num (case snd item v of Some x \<Rightarrow> x | None \<Rightarrow> 0))"
    and n1: "\<forall>v. c ''AgeOfPolicyHolder'' = Some v \<longrightarrow> D ''AgeOfPolicyHolder_Numeric'' =
          Some (Num (case map_of age_mapping v of Some x \<Rightarrow> x | None \<Rightarrow> 35))"
    and n2: "\<forall>v. c ''VehiclePrice'' = Some v \<longrightarrow> D ''VehiclePrice_Numeric'' =
          Some (Num (case map_of price_mapping v of Some x \<Rightarrow> x | None \<Rightarrow> 35000))"
    and n3: "\<forall>v. c ''AgeOfVehicle'' = Some v \<longrightarrow> D ''AgeOfVehicle_Numeric'' =
          Some (Num (case map_of vehicle_age_mapping v of Some x \<Rightarrow> x | None \<Rightarrow> 5))"
    and n4: "\<forall>v. c ''Days_Policy_Claim'' = Some v \<longrightarrow> D ''Days_Policy_Claim_Numeric'' =
          Some (Num (case map_of days_mapping v of Some x \<Rightarrow> x | None \<Rightarrow> 30))"
    and fl: "\<forall>f \<in> set [''Claim_Urgency'', ''Luxury_Vehicle'', ''Young_Driver'',
          ''Complex_Policy'', ''Premium_Make'']. \<exists>x. D f = Some (Num x)"
    by blast
  have present: "\<exists>v. c ''AgeOfPolicyHolder'' = Some v" "\<exists>v. c ''VehiclePrice'' = Some v"
    "\<exists>v. c ''AgeOfVehicle'' = Some v" "\<exists>v. c ''Days_Policy_Claim'' = Some v"
    by (rule fields_present [OF assms(2)], simp add: claim_fields_def)+
  have numerics: "\<forall>f \<in> set [''AgeOfPolicyHolder_Numeric'', ''VehiclePrice_Numeric'',
      ''AgeOfVehicle_Numeric'', ''Days_Policy_Claim_Numeric'']. \<exists>x. D f = Some (Num x)"
  proof -
    from present(1) n1 have "\<exists>x. D ''AgeOfPolicyHolder_Numeric'' = Some (Num x)" by blast
    moreover from present(2) n2 have "\<exists>x. D ''VehiclePrice_Numeric'' = Some (Num x)" by blast
    moreover from present(3) n3 have "\<exists>x. D ''AgeOfVehicle_Numeric'' = Some (Num x)" by blast
    moreover from present(4) n4 have "\<exists>x. D ''Days_Policy_Claim_Numeric'' = Some (Num x)"
      by blast
    ultimately show ?thesis by simp
  qed
  have num: "\<exists>x. D f = Some (Num x)" if "f \<in> set (derived_features ?woe)" for f
  proof -
    from that have "f \<in> (\<lambda>item. fst item @ ''_WoE'') ` set ?woe
        \<or> f \<in> set [''AgeOfPolicyHolder_Numeric'', ''VehiclePrice_Numeric'',
              ''AgeOfVehicle_Numeric'', ''Days_Policy_Claim_Numeric'']
        \<or> f \<in> set [''Claim_Urgency'', ''Luxury_Vehicle'', ''Young_Driver'',
              ''Complex_Policy'', ''Premium_Make'']"
      by (simp only: derived_features_def set_append Un_iff set_map)
    then show ?thesis
    proof (elim disjE)
      assume "f \<in> (\<lambda>item. fst item @ ''_WoE'') ` set ?woe"
      then obtain item where i: "item \<in> set ?woe" "f = fst item @ ''_WoE''" by auto
      with keys have "fst item \<in> set claim_fields" by auto
      from fields_present [OF assms(2) this] obtain v where "c (fst item) = Some v" by blast
      with w i show ?thesis by blast
    next
      assume "f \<in> set [''AgeOfPolicyHolder_Numeric'', ''VehiclePrice_Numeric'',
              ''AgeOfVehicle_Numeric'', ''Days_Policy_Claim_Numeric'']"
      with numerics show ?thesis by blast
    next
      assume "f \<in> set [''Claim_Urgency'', ''Luxury_Vehicle'', ''Young_Driver'',
              ''Complex_Policy'', ''Premium_Make'']"
      with fl show ?thesis by blast
    qed
  qed
  have pres: "\<forall>n \<in> set ?fn. D n \<noteq> None"
    using num sub by fastforce
  from select_features_present [OF ne df pres] obtain cols where
    sel: "select_features ?fn D = Row cols" and ks: "map fst cols = ?fn"
    and vs: "\<forall>k \<in> set ?fn. map_of cols k = D k"
    by blast
  have prep: "prepare_features art c = Inr (Row cols)"
    by (simp add: prepare_features_def D bind_exn_def sel)
  have allnum: "list_all (\<lambda>kv. is_num (snd kv)) cols"
    unfolding list_all_iff
  proof
    fix kv assume kv: "kv \<in> set cols"
    then have k: "fst kv \<in> set ?fn" using ks by (metis image_eqI set_map)
    from df ks have "distinct (map fst cols)" by simp
    with kv have "map_of cols (fst kv) = Some (snd kv)" by simp
    with vs k have "D (fst kv) = Some (snd kv)" by simp
    moreover from num k sub obtain x where "D (fst kv) = Some (Num x)" by blast
    ultimately have "snd kv = Num x" by simp
    then show "is_num (snd kv)" by (simp add: is_num_def)
  qed
  have nr: "numeric_row ?fn (Row cols)"
    by (simp add: numeric_row_def ks allnum)
  have xv: "\<forall>f \<in> set ?fn. \<exists>v. D f = Some v \<and> x_value (Row cols) f = Inr v"
  proof
    fix f assume f: "f \<in> set ?fn"
    with pres obtain v where "D f = Some v" by auto
    with vs f show "\<exists>v. D f = Some v \<and> x_value (Row cols) f = Inr v"
      by (simp add: x_value_def)
  qed
  from models [OF nr] obtain p1 p2 where
    p: "logistic_model art (Row cols) = Inr p1" "xgb_model art (Row cols) = Inr p2"
    by (cases "logistic_model art (Row cols)"; cases "xgb_model art (Row cols)") auto
  from points_numeric [OF nr] obtain points where
    pts: "calculate_scorecard_points art (Row cols) = Inr points" by blast
  from score_claim_succeeds [OF prep p pts] obtain r where r: "score_claim art c = Inr r"
    by blast
  have lvl: "risk_level r \<in> {''HIGH'', ''MEDIUM'', ''LOW''}"
    unfolding score_claim_level [OF r] by simp
  show ?thesis
  proof (intro exI [of _ D] exI [of _ "Row cols"] exI [of _ r] conjI)
    show "derive_columns ?woe c = Inr D" by (rule D)
    show "prepare_features art c = Inr (Row cols)" by (rule prep)
    show "numeric_row ?fn (Row cols)" by (rule nr)
    show "\<forall>f \<in> set ?fn. \<exists>v. D f = Some v \<and> x_value (Row cols) f = Inr v" by (rule xv)
    show "\<forall>item \<in> set ?woe. \<forall>v. c (fst item) = Some v \<and> snd item v = None \<longrightarrow>
             D (fst item @ ''_WoE'') = Some (Num 0)"
    proof (intro ballI allI impI)
      fix item v
      assume i: "item \<in> set ?woe" and h: "c (fst item) = Some v \<and> snd item v = None"
      from w i h have "D (fst item @ ''_WoE'') =
          Some (Num (case snd item v of Some x \<Rightarrow> x | None \<Rightarrow> 0))" by blast
      with h show "D (fst item @ ''_WoE'') = Some (Num 0)" by simp
    qed
    show "\<forall>v. c ''AgeOfPolicyHolder'' = Some v \<and> map_of age_mapping v = None \<longrightarrow>
           D ''AgeOfPolicyHolder_Numeric'' = Some (Num 35)"
      using n1 by (simp split: option.split)
    show "\<forall>v. c ''VehiclePrice'' = Some v \<and> map_of price_mapping v = None \<longrightarrow>
           D ''VehiclePrice_Numeric'' = Some (Num 35000)"
      using n2 by (simp split: option.split)
    show "\<forall>v. c ''AgeOfVehicle'' = Some v \<and> map_of vehicle_age_mapping v = None \<longrightarrow>
           D ''AgeOfVehicle_Numeric'' = Some (Num 5)"
      using n3 by (simp split: option.split)
    show "\<forall>v. c ''Days_Policy_Claim'' = Some v \<and> map_of days_mapping v = None \<longrightarrow>
           D ''Days_Policy_Claim_Numeric'' = Some (Num 30)"
      using n4 by (simp split: option.split)
    show "score_claim art c = Inr r" by (rule r)
    show "calculate_fraud_score art c = r" by (rule calc_inr [OF r])
    show "risk_level r \<in> {''HIGH'', ''MEDIUM'', ''LOW''}" by (rule lvl)
  qed
qed

theorem unknown_values_scored_witness:
  "trained_artifacts demo_artifacts
   \<and> all_fields_present unknown_values_claim
   \<and> unknown_values_claim ''Make'' = Some ''Tesla''
   \<and> risk_level (calculate_fraud_score demo_artifacts unknown_values_claim)
        \<in> {''HIGH'', ''MEDIUM'', ''LOW''}
   \<and> (\<exists>X. prepare_features demo_artifacts unknown_values_claim = Inr X
          \<and> x_value X ''Make_WoE'' = Inr (Num 0)
          \<and> x_value X ''AgeOfVehicle_Numeric'' = Inr (Num 5))"
proof -
  have a: "trained_artifacts demo_artifacts"
    by (simp add: trained_artifacts_def demo_models)
       (simp add: demo_artifacts_def claim_fields_def derived_features_def)
  have b: "all_fields_present unknown_values_claim"
    by (simp add: all_fields_present_def claim_fields_def unknown_values_claim_def)
  have m: "unknown_values_claim ''Make'' = Some ''Tesla''"
    "unknown_values_claim ''AgeOfVehicle'' = Some ''9 years''"
    by (simp_all add: unknown_values_claim_def)
  have t: "(''Make'', [''BMW'' \<mapsto> 1 / 2, ''Honda'' \<mapsto> - (1 / 4)]) \<in> set (woe_mappings demo_artifacts)"
    "[''BMW'' \<mapsto> 1 / 2, ''Honda'' \<mapsto> - (1 / 4 :: real)] ''Tesla'' = None"
    "map_of vehicle_age_mapping ''9 years'' = None"
    "''Make_WoE'' \<in> set (feature_names demo_artifacts)"
    "''AgeOfVehicle_Numeric'' \<in> set (feature_names demo_artifacts)"
    by (simp_all add: demo_artifacts_def vehicle_age_mapping_def)
  from unknown_values_scored [OF a b] obtain D X r where
    p: "prepare_features demo_artifacts unknown_values_claim = Inr X"
    and x: "\<forall>f \<in> set (feature_names demo_artifacts). \<exists>v. D f = Some v \<and> x_value X f = Inr v"
    and w: "\<forall>item \<in> set (woe_mappings demo_artifacts). \<forall>v.
           unknown_values_claim (fst item) = Some v \<and> snd item v = None \<longrightarrow>
             D (fst item @ ''_WoE'') = Some (Num 0)"
    and g: "\<forall>v. unknown_values_claim ''AgeOfVehicle'' = Some v
           \<and> map_of vehicle_age_mapping v = None \<longrightarrow>
           D ''AgeOfVehicle_Numeric'' = Some (Num 5)"
    and r: "calculate_fraud_score demo_artifacts unknown_values_claim = r"
    and l: "risk_level r \<in> {''HIGH'', ''MEDIUM'', ''LOW''}"
    by blast
  from w t(1) m(1) t(2) have "D (''Make'' @ ''_WoE'') = Some (Num 0)"
    by fastforce
  then have d1: "D ''Make_WoE'' = Some (Num 0)" by simp
  from g m(2) t(3) have d2: "D ''AgeOfVehicle_Numeric'' = Some (Num 5)" by blast
  from x t(4) d1 have x1: "x_value X ''Make_WoE'' = Inr (Num 0)" by fastforce
  from x t(5) d2 have x2: "x_value X ''AgeOfVehicle_Numeric'' = Inr (Num 5)" by fastforce
  from a b m(1) r l p x1 x2 show ?thesis by blast
qed

end
